theory Spec2Isabelle
  imports Complex_Main
begin

section \<open>JavaScript primitives used by the movie controller\<close>

text \<open>
  Strings are lists of characters. The model covers ASCII text: case conversion acts on
  the letters a-z and A-Z, white space is the six ASCII white-space characters, and a
  word character is a letter, a digit or the underscore (the class \<open>\w\<close> of a regular
  expression without the unicode flag).
\<close>

definition isSpace :: "char \<Rightarrow> bool" where
  "isSpace c = (of_char c \<in> {32, 9, 10, 11, 12, 13 :: nat})"

definition isDigit :: "char \<Rightarrow> bool" where
  "isDigit c = (48 \<le> (of_char c :: nat) \<and> (of_char c :: nat) \<le> 57)"

definition isUpper :: "char \<Rightarrow> bool" where
  "isUpper c = (65 \<le> (of_char c :: nat) \<and> (of_char c :: nat) \<le> 90)"

definition isLower :: "char \<Rightarrow> bool" where
  "isLower c = (97 \<le> (of_char c :: nat) \<and> (of_char c :: nat) \<le> 122)"

definition isLetter :: "char \<Rightarrow> bool" where
  "isLetter c = (isUpper c \<or> isLower c)"

definition isWordChar :: "char \<Rightarrow> bool" where
  "isWordChar c = (isLetter c \<or> isDigit c \<or> c = CHR ''_'')"

definition toUpperChar :: "char \<Rightarrow> char" where
  "toUpperChar c = (if isLower c then char_of ((of_char c :: nat) - 32) else c)"

definition toLowerChar :: "char \<Rightarrow> char" where
  "toLowerChar c = (if isUpper c then char_of ((of_char c :: nat) + 32) else c)"

definition toUpperCase :: "string \<Rightarrow> string" where
  "toUpperCase s = map toUpperChar s"

definition toLowerCase :: "string \<Rightarrow> string" where
  "toLowerCase s = map toLowerChar s"

text \<open>\<open>String.prototype.trim\<close>: white space is removed at both ends.\<close>

definition trim :: "string \<Rightarrow> string" where
  "trim s = rev (dropWhile isSpace (rev (dropWhile isSpace s)))"

text \<open>
  A JavaScript number that \<open>parseInt\<close> produces is an integer or \<open>NaN\<close>. Integers are
  unbounded here; the source's doubles agree with them below \<open>2 ^ 53\<close>.
\<close>

datatype jsnum = NaN | Num int

definition digitVal :: "char \<Rightarrow> nat" where
  "digitVal c =
     (if isDigit c then of_char c - 48
      else if isLower c then of_char c - 87
      else if isUpper c then of_char c - 55
      else 99)"

definition digitsVal :: "nat \<Rightarrow> string \<Rightarrow> nat" where
  "digitsVal radix ds = foldl (\<lambda>acc c. acc * radix + digitVal c) 0 ds"

definition isHexPrefix :: "string \<Rightarrow> bool" where
  "isHexPrefix s = (take 2 s = ''0x'' \<or> take 2 s = ''0X'')"

text \<open>
  \<open>parseInt(string)\<close> with no radix: leading white space is skipped, one sign is read, a
  prefix \<open>0x\<close> selects radix 16, and the longest run of digits of the radix is the value;
  with no digit the result is \<open>NaN\<close>. Whatever follows the digits is ignored.
\<close>

definition parseInt :: "string \<Rightarrow> jsnum" where
  "parseInt s =
     (let s1 = dropWhile isSpace s;
          neg = (take 1 s1 = ''-'');
          s2 = (if take 1 s1 = ''-'' \<or> take 1 s1 = ''+'' then drop 1 s1 else s1);
          radix = (if isHexPrefix s2 then 16 else 10);
          s3 = (if isHexPrefix s2 then drop 2 s2 else s2);
          ds = takeWhile (\<lambda>c. digitVal c < radix) s3
      in if ds = [] then NaN
         else Num ((if neg then - 1 else 1) * int (digitsVal radix ds)))"

text \<open>\<open>Math.max\<close> and \<open>Math.min\<close> return \<open>NaN\<close> as soon as one argument is \<open>NaN\<close>.\<close>

fun Math_max :: "jsnum \<Rightarrow> jsnum \<Rightarrow> jsnum" where
  "Math_max (Num a) (Num b) = Num (max a b)"
| "Math_max _ _ = NaN"

fun Math_min :: "jsnum \<Rightarrow> jsnum \<Rightarrow> jsnum" where
  "Math_min (Num a) (Num b) = Num (min a b)"
| "Math_min _ _ = NaN"

fun jsAdd :: "jsnum \<Rightarrow> jsnum \<Rightarrow> jsnum" where
  "jsAdd (Num a) (Num b) = Num (a + b)"
| "jsAdd _ _ = NaN"

fun jsSub :: "jsnum \<Rightarrow> jsnum \<Rightarrow> jsnum" where
  "jsSub (Num a) (Num b) = Num (a - b)"
| "jsSub _ _ = NaN"

fun jsMul :: "jsnum \<Rightarrow> jsnum \<Rightarrow> jsnum" where
  "jsMul (Num a) (Num b) = Num (a * b)"
| "jsMul _ _ = NaN"

text \<open>
  \<open>parseFloat\<close> yields a decimal fraction, an infinity or \<open>NaN\<close>. Fractions are exact
  rationals here (the nearest double in the source).
\<close>

datatype jsfloat = FNaN | Fin rat | PosInf | NegInf

definition pow10 :: "int \<Rightarrow> rat" where
  "pow10 e = (if 0 \<le> e then 10 ^ nat e else 1 / 10 ^ nat (- e))"

definition parseExponent :: "string \<Rightarrow> int" where
  "parseExponent s =
     (if take 1 s = ''e'' \<or> take 1 s = ''E'' then
        (let t = drop 1 s;
             neg = (take 1 t = ''-'');
             t1 = (if take 1 t = ''-'' \<or> take 1 t = ''+'' then drop 1 t else t);
             ds = takeWhile isDigit t1
         in if ds = [] then 0 else (if neg then - 1 else 1) * int (digitsVal 10 ds))
      else 0)"

definition parseFloat :: "string \<Rightarrow> jsfloat" where
  "parseFloat s =
     (let s1 = dropWhile isSpace s;
          neg = (take 1 s1 = ''-'');
          s2 = (if take 1 s1 = ''-'' \<or> take 1 s1 = ''+'' then drop 1 s1 else s1);
          ip = takeWhile isDigit s2;
          r1 = dropWhile isDigit s2;
          fp = (if take 1 r1 = ''.'' then takeWhile isDigit (drop 1 r1) else []);
          r2 = (if take 1 r1 = ''.'' then dropWhile isDigit (drop 1 r1) else r1)
      in if take 8 s2 = ''Infinity'' then (if neg then NegInf else PosInf)
         else if ip = [] \<and> fp = [] then FNaN
         else Fin ((if neg then - 1 else 1) * of_nat (digitsVal 10 (ip @ fp))
                   * pow10 (parseExponent r2 - int (length fp))))"

text \<open>\<open>Math.round\<close> rounds to the nearest integer, a half upwards.\<close>

definition Math_round :: "rat \<Rightarrow> int" where
  "Math_round x = \<lfloor>x + 1 / 2\<rfloor>"

text \<open>Printing an integer in decimal, as a template literal does.\<close>

fun showNat :: "nat \<Rightarrow> nat \<Rightarrow> string" where
  "showNat 0 n = []"
| "showNat (Suc fuel) n =
     (if n < 10 then [char_of (48 + n)]
      else showNat fuel (n div 10) @ [char_of (48 + n mod 10)])"

definition showInt :: "int \<Rightarrow> string" where
  "showInt i = (if i < 0 then ''-'' @ showNat (Suc (nat (- i))) (nat (- i))
                else showNat (Suc (nat i)) (nat i))"

section \<open>Regular expressions of the storage service\<close>

text \<open>
  The controller hands patterns to the storage service, which tests them with option
  \<open>i\<close> (case-insensitive). The engine is a collaborator outside the repository, so the
  handlers take it as a parameter: \<open>regexp e p\<close> is \<open>None\<close> when the pattern \<open>p\<close> is
  rejected and otherwise the test of a subject string.

  \<open>regexp_i\<close> below is a concrete engine for a fragment of the pattern language:
  literal characters, \<open>.\<close> (any character but a line feed), the anchors \<open>^\<close> and \<open>$\<close>
  (the end of the subject, or the place before a line feed that ends it), alternation, groups, the
  quantifiers \<open>*\<close>, \<open>+\<close>, \<open>?\<close> (also lazy) and a backslash before a character that is not a
  letter or a digit. It answers \<open>None\<close> for an ill-formed pattern and also for a pattern
  that uses syntax outside the fragment (character classes, counted repetition,
  escapes such as \<open>\d\<close>, extension groups); statements about \<open>regexp_i\<close> in this theory
  apply it to patterns of the fragment only.
\<close>

datatype re = Lit char | Dot | Bol | Eol | Eps | Cat re re | Alt re re | Star re

datatype perr = SyntaxError | Unsupported

datatype lastk = LNone | LOpen | LAtom | LAnchor | LQuant | LLazy

type_synonym frame = "re list \<times> re list"

type_synonym pstate = "frame list \<times> lastk \<times> bool"

definition mkseq :: "re list \<Rightarrow> re" where
  "mkseq rs = foldr Cat rs Eps"

fun mkalt :: "re list \<Rightarrow> re" where
  "mkalt [] = Eps"
| "mkalt [r] = r"
| "mkalt (r # rs) = Alt r (mkalt rs)"

text \<open>A frame holds the finished alternatives and the atoms of the current one, both reversed.\<close>

definition closeFrame :: "frame \<Rightarrow> re" where
  "closeFrame fr = mkalt (rev (mkseq (rev (snd fr)) # fst fr))"

definition pushAtom :: "re \<Rightarrow> lastk \<Rightarrow> pstate \<Rightarrow> perr + pstate" where
  "pushAtom r k st =
     (case fst st of
        [] \<Rightarrow> Inl SyntaxError
      | fr # frs \<Rightarrow> Inr ((fst fr, r # snd fr) # frs, k, False))"

definition quantify :: "(re \<Rightarrow> re) \<Rightarrow> pstate \<Rightarrow> perr + pstate" where
  "quantify q st =
     (case fst st of
        [] \<Rightarrow> Inl SyntaxError
      | fr # frs \<Rightarrow>
          (case snd fr of
             [] \<Rightarrow> Inl SyntaxError
           | r # rs \<Rightarrow> Inr ((fst fr, q r # rs) # frs, LQuant, False)))"


definition pstep :: "char \<Rightarrow> pstate \<Rightarrow> perr + pstate" where
  "pstep c st =
     (let k = fst (snd st) in
      if snd (snd st) then
        (if isLetter c \<or> isDigit c then Inl Unsupported else pushAtom (Lit c) LAtom st)
      else if c = CHR 0x5C then Inr (fst st, k, True)
      else if c = CHR ''('' then Inr (([], []) # fst st, LOpen, False)
      else if c = CHR '')'' then
        (case fst st of
           fr # pa # frs \<Rightarrow> Inr ((fst pa, closeFrame fr # snd pa) # frs, LAtom, False)
         | _ \<Rightarrow> Inl SyntaxError)
      else if c = CHR ''|'' then
        (case fst st of
           [] \<Rightarrow> Inl SyntaxError
         | fr # frs \<Rightarrow> Inr ((mkseq (rev (snd fr)) # fst fr, []) # frs, LNone, False))
      else if c = CHR ''*'' then
        (if k = LAtom then quantify Star st
         else if k = LAnchor \<or> k = LLazy then Inl Unsupported
         else Inl SyntaxError)
      else if c = CHR ''+'' then
        (if k = LAtom then quantify (\<lambda>r. Cat r (Star r)) st
         else if k = LAnchor \<or> k = LLazy \<or> k = LQuant then Inl Unsupported
         else Inl SyntaxError)
      else if c = CHR ''?'' then
        (if k = LAtom then quantify (\<lambda>r. Alt r Eps) st
         else if k = LQuant then Inr (fst st, LLazy, False)
         else if k = LAnchor \<or> k = LOpen \<or> k = LLazy then Inl Unsupported
         else Inl SyntaxError)
      else if c = CHR ''.'' then pushAtom Dot LAtom st
      else if c = CHR ''^'' then pushAtom Bol LAnchor st
      else if c = CHR ''$'' then pushAtom Eol LAnchor st
      else if c = CHR ''['' \<or> c = CHR ''{'' then Inl Unsupported
      else pushAtom (Lit c) LAtom st)"

fun psteps :: "string \<Rightarrow> pstate \<Rightarrow> perr + pstate" where
  "psteps [] st = Inr st"
| "psteps (c # cs) st = (case pstep c st of Inl e \<Rightarrow> Inl e | Inr st' \<Rightarrow> psteps cs st')"

definition parseRe :: "string \<Rightarrow> perr + re" where
  "parseRe p =
     (case psteps p ([([], [])], LNone, False) of
        Inl e \<Rightarrow> Inl e
      | Inr st \<Rightarrow>
          (if snd (snd st) then Inl SyntaxError
           else case fst st of [fr] \<Rightarrow> Inr (closeFrame fr) | _ \<Rightarrow> Inl SyntaxError))"

text \<open>
  Matching. A position is the pair of "nothing of the subject lies to the left" and the
  rest of the subject; \<open>mtch r pos\<close> lists the positions at which a match of \<open>r\<close> starting
  at \<open>pos\<close> can end. A repetition only continues after an iteration that consumed a
  character, so \<open>length rest\<close> iterations are enough.
\<close>

type_synonym pos = "bool \<times> string"

primrec iter :: "nat \<Rightarrow> (pos \<Rightarrow> pos list) \<Rightarrow> pos \<Rightarrow> pos list" where
  "iter 0 f st = [st]"
| "iter (Suc n) f st =
     st # concat (map (iter n f) (filter (\<lambda>st'. length (snd st') < length (snd st)) (f st)))"

primrec mtch :: "re \<Rightarrow> pos \<Rightarrow> pos list" where
  "mtch (Lit c) st =
     (case snd st of
        [] \<Rightarrow> []
      | x # xs \<Rightarrow> if toLowerChar x = toLowerChar c then [(False, xs)] else [])"
| "mtch Dot st =
     (case snd st of [] \<Rightarrow> [] | x # xs \<Rightarrow> if x = CHR 0x0A then [] else [(False, xs)])"
| "mtch Bol st = (if fst st then [st] else [])"
| "mtch Eol st = (if snd st = [] \<or> snd st = [CHR 0x0A] then [st] else [])"
| "mtch Eps st = [st]"
| "mtch (Cat r1 r2) st = concat (map (mtch r2) (mtch r1 st))"
| "mtch (Alt r1 r2) st = mtch r1 st @ mtch r2 st"
| "mtch (Star r) st = iter (length (snd st)) (mtch r) st"

text \<open>An unanchored test: the pattern may match from any offset of the subject.\<close>

fun searchFrom :: "re \<Rightarrow> bool \<Rightarrow> string \<Rightarrow> bool" where
  "searchFrom r b [] = (mtch r (b, []) \<noteq> [])"
| "searchFrom r b (x # xs) = (mtch r (b, x # xs) \<noteq> [] \<or> searchFrom r False xs)"

definition regexp_i :: "string \<Rightarrow> (string \<Rightarrow> bool) option" where
  "regexp_i p = (case parseRe p of Inl e \<Rightarrow> None | Inr r \<Rightarrow> Some (searchFrom r True))"



text \<open>A subject without a line feed, but for one that may end it.\<close>

definition singleLine :: "string \<Rightarrow> bool" where
  "singleLine t =
     (CHR 0x0A \<notin> set (if t \<noteq> [] \<and> last t = CHR 0x0A then butlast t else t))"

section \<open>The movie collection\<close>

text \<open>
  A document of the \<open>Movie\<close> model, with the fields the controller reads or writes
  (\<open>doc_id\<close> is \<open>_id\<close>, \<open>rating\<close> and \<open>votes\<close> are \<open>imdb.rating\<close> and \<open>imdb.votes\<close>).
  An optional field that is absent is \<open>None\<close>. Time stamps are milliseconds.
\<close>

datatype status = Active | Inactive | Pending | Deleted

datatype jsdate = DateMs int | DateJan1 int

record movie =
  doc_id :: nat
  title :: string
  plot :: "string option"
  genres :: "string list"
  year :: "int option"
  runtime :: "int option"
  director :: "string option"
  cast :: "string list"
  rating :: "rat option"
  votes :: "int option"
  poster :: "string option"
  released :: "jsdate option"
  favorites :: int
  viewCount :: int
  source :: string
  status :: status
  createdAt :: int
  updatedAt :: int
  deletedAt :: "int option"

text \<open>
  What lies outside the repository: the regular-expression engine, the driver option
  \<open>ignoreUndefined\<close> (whether a filter entry whose value is \<open>undefined\<close> is left out, or
  sent as \<open>null\<close> and so matches the documents without that field; \<open>server.js\<close> connects
  without setting it), and the year the process started in, from which the schema
  computes the upper bound of \<open>year\<close>.
\<close>

record env =
  regexp :: "string \<Rightarrow> (string \<Rightarrow> bool) option"
  ignoreUndefined :: bool
  startYear :: int

text \<open>
  The error answers: not-found with the requested identifier (404), a duplicate with the
  title and year of the request (409), a validation error and a cast error (400), and
  any other failure (500).
\<close>

datatype error =
    NotFound nat
  | Duplicate "string option" "int option"
  | ValidationError
  | CastError
  | InternalError

subsection \<open>Filters\<close>

datatype statusCond = StatusIs status | StatusNot status

datatype yearCond = YearEq jsnum | YearRange jsnum jsnum | YearUndefined

datatype orCond =
    TitleRegex string
  | PlotRegex string
  | DirectorRegex string
  | CastElemRegex string
  | GenresElemRegex string
  | GenresIn "string list"
  | DirectorIs "string option"

text \<open>
  A filter object, one field per key the controller sets. Patterns are kept as the
  strings the controller supplies; all are tested with option \<open>i\<close>.
\<close>

record query =
  q_id_ne :: "nat option"
  q_status :: "statusCond option"
  q_or :: "orCond list option"
  q_title :: "string option"
  q_genres :: "string option"
  q_year :: "yearCond option"
  q_rating :: "(jsfloat option \<times> jsfloat option) option"
  q_source :: "string option"
  q_updatedAt_gte :: "int option"

definition emptyQuery :: query where
  "emptyQuery =
     \<lparr>q_id_ne = None, q_status = None, q_or = None, q_title = None, q_genres = None,
      q_year = None, q_rating = None, q_source = None, q_updatedAt_gte = None\<rparr>"

definition rxTest :: "env \<Rightarrow> string \<Rightarrow> string \<Rightarrow> bool" where
  "rxTest e p s = (case regexp e p of None \<Rightarrow> False | Some f \<Rightarrow> f s)"

fun matchOr :: "env \<Rightarrow> movie \<Rightarrow> orCond \<Rightarrow> bool" where
  "matchOr e m (TitleRegex p) = rxTest e p (title m)"
| "matchOr e m (PlotRegex p) = (case plot m of None \<Rightarrow> False | Some s \<Rightarrow> rxTest e p s)"
| "matchOr e m (DirectorRegex p) =
     (case director m of None \<Rightarrow> False | Some s \<Rightarrow> rxTest e p s)"
| "matchOr e m (CastElemRegex p) = list_ex (rxTest e p) (cast m)"
| "matchOr e m (GenresElemRegex p) = list_ex (rxTest e p) (genres m)"
| "matchOr e m (GenresIn gs) = list_ex (\<lambda>g. g \<in> set gs) (genres m)"
| "matchOr e m (DirectorIs None) = (ignoreUndefined e \<or> director m = None)"
| "matchOr e m (DirectorIs (Some d)) = (director m = Some d)"

fun matchStatus :: "movie \<Rightarrow> statusCond \<Rightarrow> bool" where
  "matchStatus m (StatusIs s) = (status m = s)"
| "matchStatus m (StatusNot s) = (status m \<noteq> s)"

fun matchYear :: "env \<Rightarrow> movie \<Rightarrow> yearCond \<Rightarrow> bool" where
  "matchYear e m (YearEq (Num y)) = (year m = Some y)"
| "matchYear e m (YearEq NaN) = False"
| "matchYear e m (YearRange (Num lo) (Num hi)) =
     (case year m of None \<Rightarrow> False | Some y \<Rightarrow> lo \<le> y \<and> y \<le> hi)"
| "matchYear e m (YearRange _ _) = False"
| "matchYear e m YearUndefined = (ignoreUndefined e \<or> year m = None)"

fun gteBound :: "jsfloat option \<Rightarrow> rat \<Rightarrow> bool" where
  "gteBound None r = True"
| "gteBound (Some (Fin x)) r = (x \<le> r)"
| "gteBound (Some NegInf) r = True"
| "gteBound (Some _) r = False"

fun lteBound :: "jsfloat option \<Rightarrow> rat \<Rightarrow> bool" where
  "lteBound None r = True"
| "lteBound (Some (Fin x)) r = (r \<le> x)"
| "lteBound (Some PosInf) r = True"
| "lteBound (Some _) r = False"

definition matchRating :: "movie \<Rightarrow> jsfloat option \<times> jsfloat option \<Rightarrow> bool" where
  "matchRating m b =
     (case rating m of None \<Rightarrow> False | Some r \<Rightarrow> gteBound (fst b) r \<and> lteBound (snd b) r)"

definition opt_all :: "('a \<Rightarrow> bool) \<Rightarrow> 'a option \<Rightarrow> bool" where
  "opt_all P x = (case x of None \<Rightarrow> True | Some v \<Rightarrow> P v)"

text \<open>The entries of a filter are joined by "and"; the entries of \<open>$or\<close> by "or".\<close>

definition matches :: "env \<Rightarrow> query \<Rightarrow> movie \<Rightarrow> bool" where
  "matches e q m =
     (opt_all (\<lambda>i. doc_id m \<noteq> i) (q_id_ne q)
      \<and> opt_all (matchStatus m) (q_status q)
      \<and> opt_all (list_ex (matchOr e m)) (q_or q)
      \<and> opt_all (\<lambda>p. rxTest e p (title m)) (q_title q)
      \<and> opt_all (\<lambda>p. list_ex (rxTest e p) (genres m)) (q_genres q)
      \<and> opt_all (matchYear e m) (q_year q)
      \<and> opt_all (matchRating m) (q_rating q)
      \<and> opt_all (\<lambda>s. source m = s) (q_source q)
      \<and> opt_all (\<lambda>t. t \<le> updatedAt m) (q_updatedAt_gte q))"

fun orPattern :: "orCond \<Rightarrow> string list" where
  "orPattern (TitleRegex p) = [p]"
| "orPattern (PlotRegex p) = [p]"
| "orPattern (DirectorRegex p) = [p]"
| "orPattern (CastElemRegex p) = [p]"
| "orPattern (GenresElemRegex p) = [p]"
| "orPattern _ = []"

definition queryPatterns :: "query \<Rightarrow> string list" where
  "queryPatterns q =
     (case q_or q of None \<Rightarrow> [] | Some cs \<Rightarrow> concat (map orPattern cs))
     @ (case q_title q of None \<Rightarrow> [] | Some p \<Rightarrow> [p])
     @ (case q_genres q of None \<Rightarrow> [] | Some p \<Rightarrow> [p])"

text \<open>
  The model casts the numbers of a filter by the schema before it sends the query, and
  the cast of \<open>NaN\<close> fails.
\<close>

fun yearCastFails :: "yearCond \<Rightarrow> bool" where
  "yearCastFails (YearEq NaN) = True"
| "yearCastFails (YearRange NaN _) = True"
| "yearCastFails (YearRange _ NaN) = True"
| "yearCastFails _ = False"

definition castFails :: "query \<Rightarrow> bool" where
  "castFails q =
     ((case q_year q of None \<Rightarrow> False | Some yc \<Rightarrow> yearCastFails yc)
      \<or> (case q_rating q of
            None \<Rightarrow> False
          | Some b \<Rightarrow> fst b = Some FNaN \<or> snd b = Some FNaN))"

text \<open>
  \<open>Model.find(filter)\<close>: the documents that match, in the order of the collection. The
  storage service rejects the whole query when it rejects one of its patterns.
\<close>

definition find :: "env \<Rightarrow> movie list \<Rightarrow> query \<Rightarrow> error + movie list" where
  "find e docs q =
     (if castFails q then Inl CastError
      else if list_ex (\<lambda>p. regexp e p = None) (queryPatterns q) then Inl InternalError
      else Inr (filter (matches e q) docs))"

definition findOne :: "env \<Rightarrow> movie list \<Rightarrow> query \<Rightarrow> error + movie option" where
  "findOne e docs q =
     (case find e docs q of
        Inl err \<Rightarrow> Inl err
      | Inr ms \<Rightarrow> Inr (case ms of [] \<Rightarrow> None | m # _ \<Rightarrow> Some m))"

definition findById :: "movie list \<Rightarrow> nat \<Rightarrow> movie option" where
  "findById docs i = List.find (\<lambda>m. doc_id m = i) docs"

definition countDocuments :: "env \<Rightarrow> movie list \<Rightarrow> query \<Rightarrow> error + nat" where
  "countDocuments e docs q =
     (case find e docs q of Inl err \<Rightarrow> Inl err | Inr ms \<Rightarrow> Inr (length ms))"

subsection \<open>Sorting, skipping, limiting\<close>

datatype sortField =
  SYear | STitle | SRating | SVotes | SViewCount | SFavorites | SCreatedAt | SRuntime

datatype bval = BNull | BNum rat | BStr string

fun strLess :: "string \<Rightarrow> string \<Rightarrow> bool" where
  "strLess [] [] = False"
| "strLess [] (y # ys) = True"
| "strLess (x # xs) [] = False"
| "strLess (x # xs) (y # ys) =
     ((of_char x :: nat) < of_char y \<or> (x = y \<and> strLess xs ys))"

text \<open>The order of the storage service: null, then numbers, then strings.\<close>

fun bvalLess :: "bval \<Rightarrow> bval \<Rightarrow> bool" where
  "bvalLess BNull BNull = False"
| "bvalLess BNull _ = True"
| "bvalLess (BNum a) (BNum b) = (a < b)"
| "bvalLess (BNum a) (BStr b) = True"
| "bvalLess (BStr a) (BStr b) = strLess a b"
| "bvalLess _ _ = False"

definition optNum :: "int option \<Rightarrow> bval" where
  "optNum x = (case x of None \<Rightarrow> BNull | Some n \<Rightarrow> BNum (of_int n))"

fun fieldVal :: "sortField \<Rightarrow> movie \<Rightarrow> bval" where
  "fieldVal SYear m = optNum (year m)"
| "fieldVal STitle m = BStr (title m)"
| "fieldVal SRating m = (case rating m of None \<Rightarrow> BNull | Some r \<Rightarrow> BNum r)"
| "fieldVal SVotes m = optNum (votes m)"
| "fieldVal SViewCount m = BNum (of_int (viewCount m))"
| "fieldVal SFavorites m = BNum (of_int (favorites m))"
| "fieldVal SCreatedAt m = BNum (of_int (createdAt m))"
| "fieldVal SRuntime m = optNum (runtime m)"

text \<open>A sort specification: the keys in order, \<open>True\<close> for ascending (1), \<open>False\<close> for descending (-1).\<close>

type_synonym sortSpec = "(sortField \<times> bool) list"

fun docLe :: "sortSpec \<Rightarrow> movie \<Rightarrow> movie \<Rightarrow> bool" where
  "docLe [] a b = True"
| "docLe (k # ks) a b =
     (if fieldVal (fst k) a = fieldVal (fst k) b then docLe ks a b
      else if snd k then bvalLess (fieldVal (fst k) a) (fieldVal (fst k) b)
      else bvalLess (fieldVal (fst k) b) (fieldVal (fst k) a))"

fun insertDoc :: "sortSpec \<Rightarrow> movie \<Rightarrow> movie list \<Rightarrow> movie list" where
  "insertDoc sp d [] = [d]"
| "insertDoc sp d (x # xs) = (if docLe sp d x then d # x # xs else x # insertDoc sp d xs)"

definition sortDocs :: "sortSpec \<Rightarrow> movie list \<Rightarrow> movie list" where
  "sortDocs sp ds = foldr (insertDoc sp) ds []"

text \<open>
  \<open>skip\<close> and \<open>limit\<close> of a cursor. The storage service refuses a value that is not a
  number and a negative skip; a limit of 0 is no limit and a negative limit counts as
  its absolute value.
\<close>

fun skipDocs :: "jsnum \<Rightarrow> 'a list \<Rightarrow> error + 'a list" where
  "skipDocs NaN xs = Inl InternalError"
| "skipDocs (Num n) xs = (if n < 0 then Inl InternalError else Inr (drop (nat n) xs))"

fun limitDocs :: "jsnum \<Rightarrow> 'a list \<Rightarrow> error + 'a list" where
  "limitDocs NaN xs = Inl InternalError"
| "limitDocs (Num n) xs = (if n = 0 then Inr xs else Inr (take (nat \<bar>n\<bar>) xs))"

section \<open>The Movie schema: validation, hooks, serialisation\<close>

definition genreEnum :: "string list" where
  "genreEnum =
     [''Action'', ''Adventure'', ''Animation'', ''Biography'', ''Comedy'', ''Crime'',
      ''Documentary'', ''Drama'', ''Family'', ''Fantasy'', ''History'', ''Horror'', ''Music'',
      ''Musical'', ''Mystery'', ''Romance'', ''Sci-Fi'', ''Sport'', ''Thriller'', ''War'',
      ''Western'']"

definition sourceEnum :: "string list" where
  "sourceEnum = [''mflix'', ''omdb'', ''tmdb'', ''user'', ''admin'']"

definition validTitle :: "string \<Rightarrow> bool" where
  "validTitle t = (t \<noteq> [] \<and> length t \<le> 200)"

text \<open>The poster validator: empty, or \<open>http://\<close> or \<open>https://\<close> followed by a character.\<close>

definition validPoster :: "string \<Rightarrow> bool" where
  "validPoster url =
     (url = []
      \<or> (take 7 (toLowerCase url) = ''http://'' \<and> take 1 (drop 7 url) \<noteq> []
          \<and> take 1 (drop 7 url) \<noteq> [CHR 0x0A])
      \<or> (take 8 (toLowerCase url) = ''https://'' \<and> take 1 (drop 8 url) \<noteq> []
          \<and> take 1 (drop 8 url) \<noteq> [CHR 0x0A]))"

definition validYear :: "env \<Rightarrow> int \<Rightarrow> bool" where
  "validYear e y = (1800 \<le> y \<and> y \<le> startYear e + 5)"

text \<open>The validators of a whole document, run by \<open>save\<close> on a new document.\<close>

definition validate :: "env \<Rightarrow> movie \<Rightarrow> bool" where
  "validate e m =
     (validTitle (title m)
      \<and> opt_all (\<lambda>p. length p \<le> 2000) (plot m)
      \<and> list_all (\<lambda>g. g \<in> set genreEnum) (genres m)
      \<and> opt_all (validYear e) (year m)
      \<and> opt_all (\<lambda>r. 1 \<le> r \<and> r \<le> 1000) (runtime m)
      \<and> opt_all (\<lambda>d. length d \<le> 100) (director m)
      \<and> list_all (\<lambda>a. length a \<le> 100) (cast m)
      \<and> opt_all (\<lambda>r. 0 \<le> r \<and> r \<le> 10) (rating m)
      \<and> opt_all (\<lambda>v. 0 \<le> v) (votes m)
      \<and> opt_all validPoster (poster m)
      \<and> 0 \<le> favorites m
      \<and> 0 \<le> viewCount m
      \<and> source m \<in> set sourceEnum)"

text \<open>
  The \<open>pre('save')\<close> hook. \<open>replaceWords f s\<close> is \<open>s.replace(/\w\S*/g, f)\<close>: a match starts
  at a word character and runs to the next white space; the text between matches is
  kept. \<open>capitalizeMatch\<close> is the callback of the hook.
\<close>

definition capitalizeMatch :: "string \<Rightarrow> string" where
  "capitalizeMatch txt = toUpperCase (take 1 txt) @ toLowerCase (drop 1 txt)"

function replaceWords :: "(string \<Rightarrow> string) \<Rightarrow> string \<Rightarrow> string" where
  "replaceWords f [] = []"
| "replaceWords f (c # cs) =
     (if isWordChar c
      then f (c # takeWhile (\<lambda>x. \<not> isSpace x) cs)
           @ replaceWords f (dropWhile (\<lambda>x. \<not> isSpace x) cs)
      else c # replaceWords f cs)"
  by pat_completeness auto
termination
  by (relation "measure (\<lambda>(f, s). length s)") (auto simp: length_dropWhile_le less_Suc_eq_le)

definition capitalizeWords :: "string \<Rightarrow> string" where
  "capitalizeWords s = replaceWords capitalizeMatch s"

definition preSave :: "movie \<Rightarrow> movie" where
  "preSave m =
     (let m1 = (if title m \<noteq> [] then m\<lparr>title := capitalizeWords (title m)\<rparr> else m);
          m2 = (case director m1 of
                  None \<Rightarrow> m1
                | Some d \<Rightarrow> if d \<noteq> [] then m1\<lparr>director := Some (capitalizeWords d)\<rparr> else m1)
      in case year m2 of
           None \<Rightarrow> m2
         | Some y \<Rightarrow> if y \<noteq> 0 \<and> released m2 = None then m2\<lparr>released := Some (DateJan1 y)\<rparr>
                     else m2)"

text \<open>
  \<open>save\<close> of a new document: validation, the hook, the time stamps, the insert.
\<close>

definition save :: "env \<Rightarrow> int \<Rightarrow> movie list \<Rightarrow> movie \<Rightarrow> error + (movie \<times> movie list)" where
  "save e now docs m =
     (if \<not> validate e m then Inl ValidationError
      else let m' = (preSave m)\<lparr>createdAt := now, updatedAt := now\<rparr>
           in Inr (m', docs @ [m']))"

fun updateById :: "nat \<Rightarrow> (movie \<Rightarrow> movie) \<Rightarrow> movie list \<Rightarrow> movie list" where
  "updateById i f [] = []"
| "updateById i f (d # ds) = (if doc_id d = i then f d # ds else d # updateById i f ds)"

text \<open>
  \<open>incrementView\<close>: the counter is raised on the loaded document and the document is
  saved. On a stored document \<open>save\<close> validates the required and the modified paths
  (\<open>title\<close> and \<open>viewCount\<close>), runs the hook and writes the document back.
\<close>

definition incrementView ::
  "env \<Rightarrow> int \<Rightarrow> movie list \<Rightarrow> movie \<Rightarrow> movie \<times> (error + movie list)" where
  "incrementView e now docs m =
     (let m1 = m\<lparr>viewCount := viewCount m + 1\<rparr>
      in if \<not> (validTitle (title m1) \<and> 0 \<le> viewCount m1) then (m1, Inl ValidationError)
         else let m2 = (preSave m1)\<lparr>updatedAt := now\<rparr>
              in (m2, Inr (updateById (doc_id m) (\<lambda>d. m2) docs)))"

text \<open>
  The \<open>toJSON\<close> transform of the schema, applied when a document of the model is
  serialised; a result of \<open>lean()\<close> is a plain object and is serialised as it is stored.
\<close>

definition round1 :: "rat \<Rightarrow> rat" where
  "round1 r = of_int (Math_round (r * 10)) / 10"

definition toJSON :: "movie \<Rightarrow> movie" where
  "toJSON m =
     (case rating m of
        None \<Rightarrow> m
      | Some r \<Rightarrow> if r \<noteq> 0 then m\<lparr>rating := Some (round1 r)\<rparr> else m)"

text \<open>
  A request body for create and update: the schema fields it may carry, each optional.
\<close>

record body =
  b_title :: "string option"
  b_plot :: "string option"
  b_genres :: "string list option"
  b_year :: "int option"
  b_runtime :: "int option"
  b_director :: "string option"
  b_cast :: "string list option"
  b_rating :: "rat option"
  b_votes :: "int option"
  b_poster :: "string option"
  b_status :: "status option"
  b_source :: "string option"
  b_favorites :: "int option"
  b_viewCount :: "int option"

definition orElse :: "'a option \<Rightarrow> 'a \<Rightarrow> 'a" where
  "orElse x d = (case x of None \<Rightarrow> d | Some v \<Rightarrow> v)"

text \<open>\<open>new Movie(data)\<close>: strings are trimmed, absent fields take the schema defaults.\<close>

definition newMovie :: "nat \<Rightarrow> body \<Rightarrow> movie" where
  "newMovie i b =
     \<lparr>doc_id = i,
      title = trim (orElse (b_title b) []),
      plot = map_option trim (b_plot b),
      genres = map trim (orElse (b_genres b) []),
      year = b_year b,
      runtime = b_runtime b,
      director = map_option trim (b_director b),
      cast = map trim (orElse (b_cast b) []),
      rating = b_rating b,
      votes = b_votes b,
      poster = map_option trim (b_poster b),
      released = None,
      favorites = orElse (b_favorites b) 0,
      viewCount = orElse (b_viewCount b) 0,
      source = orElse (b_source b) ''user'',
      status = orElse (b_status b) Active,
      createdAt = 0,
      updatedAt = 0,
      deletedAt = None\<rparr>"

text \<open>An update sets the fields the body carries, cast as the schema says.\<close>

definition applyUpdate :: "body \<Rightarrow> movie \<Rightarrow> movie" where
  "applyUpdate b m =
     m\<lparr>title := (case b_title b of None \<Rightarrow> title m | Some t \<Rightarrow> trim t),
       plot := (case b_plot b of None \<Rightarrow> plot m | Some t \<Rightarrow> Some (trim t)),
       genres := (case b_genres b of None \<Rightarrow> genres m | Some gs \<Rightarrow> map trim gs),
       year := (case b_year b of None \<Rightarrow> year m | Some y \<Rightarrow> Some y),
       runtime := (case b_runtime b of None \<Rightarrow> runtime m | Some r \<Rightarrow> Some r),
       director := (case b_director b of None \<Rightarrow> director m | Some d \<Rightarrow> Some (trim d)),
       cast := (case b_cast b of None \<Rightarrow> cast m | Some cs \<Rightarrow> map trim cs),
       rating := (case b_rating b of None \<Rightarrow> rating m | Some r \<Rightarrow> Some r),
       votes := (case b_votes b of None \<Rightarrow> votes m | Some v \<Rightarrow> Some v),
       poster := (case b_poster b of None \<Rightarrow> poster m | Some u \<Rightarrow> Some (trim u)),
       favorites := orElse (b_favorites b) (favorites m),
       viewCount := orElse (b_viewCount b) (viewCount m),
       source := orElse (b_source b) (source m),
       status := orElse (b_status b) (status m)\<rparr>"

text \<open>The update validators (\<open>runValidators\<close>) check the fields that are set.\<close>

definition validUpdate :: "env \<Rightarrow> body \<Rightarrow> bool" where
  "validUpdate e b =
     (opt_all (\<lambda>t. validTitle (trim t)) (b_title b)
      \<and> opt_all (\<lambda>p. length (trim p) \<le> 2000) (b_plot b)
      \<and> opt_all (list_all (\<lambda>g. trim g \<in> set genreEnum)) (b_genres b)
      \<and> opt_all (validYear e) (b_year b)
      \<and> opt_all (\<lambda>r. 1 \<le> r \<and> r \<le> 1000) (b_runtime b)
      \<and> opt_all (\<lambda>d. length (trim d) \<le> 100) (b_director b)
      \<and> opt_all (list_all (\<lambda>a. length (trim a) \<le> 100)) (b_cast b)
      \<and> opt_all (\<lambda>r. 0 \<le> r \<and> r \<le> 10) (b_rating b)
      \<and> opt_all (\<lambda>v. 0 \<le> v) (b_votes b)
      \<and> opt_all (\<lambda>u. validPoster (trim u)) (b_poster b)
      \<and> opt_all (\<lambda>n. 0 \<le> n) (b_favorites b)
      \<and> opt_all (\<lambda>n. 0 \<le> n) (b_viewCount b)
      \<and> opt_all (\<lambda>s. s \<in> set sourceEnum) (b_source b))"

text \<open>
  \<open>findByIdAndUpdate\<close> with \<open>new: true\<close>: the first document with the identifier is
  updated, whatever its status, and returned as updated; \<open>None\<close> when there is none.
\<close>

definition findByIdAndUpdate ::
  "movie list \<Rightarrow> nat \<Rightarrow> (movie \<Rightarrow> movie) \<Rightarrow> movie option \<times> movie list" where
  "findByIdAndUpdate docs i f =
     (case findById docs i of
        None \<Rightarrow> (None, docs)
      | Some m \<Rightarrow> (Some (f m), updateById i f docs))"

definition freshId :: "movie list \<Rightarrow> nat" where
  "freshId docs = Suc (foldr max (map doc_id docs) 0)"

section \<open>The controller\<close>

text \<open>
  A query parameter is a string, or absent (\<open>None\<close>), in which case the handler's
  default applies; a parameter that the query-string parser delivers as an array or an
  object is outside the model. Identifiers are natural numbers, so an identifier is
  always well-formed. A handler returns an error or its response; a handler that
  writes also returns the collection.
\<close>

subsection \<open>Paging and sorting\<close>

definition pageNum :: "string option \<Rightarrow> jsnum" where
  "pageNum page = Math_max (Num 1) (parseInt (orElse page ''1''))"

definition limitNum :: "string option \<Rightarrow> jsnum" where
  "limitNum limit = Math_min (Num 50) (Math_max (Num 1) (parseInt (orElse limit ''12'')))"

definition skip :: "string option \<Rightarrow> string option \<Rightarrow> jsnum" where
  "skip page limit = jsMul (jsSub (pageNum page) (Num 1)) (limitNum limit)"

definition sortOptions :: "string \<Rightarrow> sortSpec" where
  "sortOptions sortBy =
     (if sortBy = ''year'' then [(SYear, False), (STitle, True)]
      else if sortBy = ''rating'' then [(SRating, False), (SVotes, False), (STitle, True)]
      else if sortBy = ''popularity''
        then [(SViewCount, False), (SFavorites, False), (STitle, True)]
      else if sortBy = ''latest'' then [(SCreatedAt, False)]
      else if sortBy = ''runtime'' then [(SRuntime, False), (STitle, True)]
      else [(STitle, True)])"

record pagination =
  currentPage :: int
  totalPages :: int
  totalMovies :: nat
  hasNext :: bool
  hasPrev :: bool
  pageLimit :: int

text \<open>\<open>Math.ceil(totalMovies / limitNum)\<close> for a positive limit.\<close>

definition mkPagination :: "int \<Rightarrow> int \<Rightarrow> nat \<Rightarrow> pagination" where
  "mkPagination pg lmt tot =
     (let tp = \<lceil>(of_nat tot :: rat) / of_int lmt\<rceil>
      in \<lparr>currentPage = pg, totalPages = tp, totalMovies = tot,
          hasNext = (pg < tp), hasPrev = (pg > 1), pageLimit = lmt\<rparr>)"

text \<open>\<open>find(q).sort(sp).skip(sk).limit(lm)\<close>.\<close>

definition cursor ::
  "env \<Rightarrow> movie list \<Rightarrow> query \<Rightarrow> sortSpec \<Rightarrow> jsnum \<Rightarrow> jsnum \<Rightarrow> error + movie list" where
  "cursor e docs q sp sk lm =
     (case find e docs q of
        Inl err \<Rightarrow> Inl err
      | Inr ms \<Rightarrow>
          (case skipDocs sk (sortDocs sp ms) of
             Inl err \<Rightarrow> Inl err
           | Inr ms' \<Rightarrow> limitDocs lm ms'))"

subsection \<open>getAllMovies\<close>

record listParams =
  p_page :: "string option"
  p_limit :: "string option"
  p_search :: "string option"
  p_genre :: "string option"
  p_year :: "string option"
  p_decade :: "string option"
  p_minRating :: "string option"
  p_maxRating :: "string option"
  p_sortBy :: "string option"
  p_source :: "string option"

definition searchOr :: "string \<Rightarrow> orCond list" where
  "searchOr search =
     [TitleRegex search, PlotRegex search, DirectorRegex search, CastElemRegex search,
      GenresElemRegex search]"

text \<open>
  The filter of \<open>getAllMovies\<close>, built in the order of the source: a later assignment
  to a key replaces an earlier one. \<open>new RegExp(genre, 'i')\<close> throws on a pattern that is
  rejected; the search string is stored as it is.
\<close>

definition listQuery :: "env \<Rightarrow> listParams \<Rightarrow> error + query" where
  "listQuery e p =
     (let search = orElse (p_search p) [];
          genre = orElse (p_genre p) [];
          yr = orElse (p_year p) [];
          decade = orElse (p_decade p) [];
          minRating = orElse (p_minRating p) [];
          maxRating = orElse (p_maxRating p) [];
          src = orElse (p_source p) [];
          q0 = emptyQuery\<lparr>q_status := Some (StatusIs Active)\<rparr>;
          q1 = (if trim search \<noteq> [] then q0\<lparr>q_or := Some (searchOr search)\<rparr> else q0);
          q2 = (if genre \<noteq> [] then q1\<lparr>q_genres := Some genre\<rparr> else q1);
          q3 = (if yr \<noteq> [] then q2\<lparr>q_year := Some (YearEq (parseInt yr))\<rparr> else q2);
          q4 = (if decade \<noteq> []
                then q3\<lparr>q_year := Some (YearRange (parseInt decade)
                                                  (jsAdd (parseInt decade) (Num 9)))\<rparr>
                else q3);
          q5 = (if minRating \<noteq> [] \<or> maxRating \<noteq> []
                then q4\<lparr>q_rating :=
                         Some (if minRating \<noteq> [] then Some (parseFloat minRating) else None,
                               if maxRating \<noteq> [] then Some (parseFloat maxRating) else None)\<rparr>
                else q4);
          q6 = (if src \<noteq> [] then q5\<lparr>q_source := Some src\<rparr> else q5)
      in if genre \<noteq> [] \<and> regexp e genre = None then Inl InternalError else Inr q6)"

fun insertStr :: "string \<Rightarrow> string list \<Rightarrow> string list" where
  "insertStr s [] = [s]"
| "insertStr s (x # xs) = (if strLess x s then x # insertStr s xs else s # x # xs)"

definition sortStrings :: "string list \<Rightarrow> string list" where
  "sortStrings xs = foldr insertStr xs []"

definition activeQuery :: query where
  "activeQuery = emptyQuery\<lparr>q_status := Some (StatusIs Active)\<rparr>"

text \<open>\<open>distinct('genres', {status: 'active'})\<close>, then \<open>sort()\<close>.\<close>

definition availableGenres :: "movie list \<Rightarrow> string list" where
  "availableGenres docs =
     sortStrings (remdups (concat (map genres (filter (\<lambda>m. status m = Active) docs))))"

text \<open>The smallest and the largest year of the active documents.\<close>

definition yearRange :: "movie list \<Rightarrow> int option \<times> int option" where
  "yearRange docs =
     (case List.map_filter year (filter (\<lambda>m. status m = Active) docs) of
        [] \<Rightarrow> (None, None)
      | y # ys \<Rightarrow> (Some (foldr min ys y), Some (foldr max ys y)))"

definition orNull :: "string \<Rightarrow> string option" where
  "orNull s = (if s = [] then None else Some s)"

record appliedFilters =
  af_genre :: "string option"
  af_year :: "string option"
  af_decade :: "string option"
  af_minRating :: "string option"
  af_maxRating :: "string option"
  af_sortBy :: string

record metadata =
  md_availableGenres :: "string list"
  md_yearRange :: "int option \<times> int option"
  md_searchQuery :: string
  md_appliedFilters :: appliedFilters

record listResponse =
  lr_movies :: "movie list"
  lr_pagination :: pagination
  lr_metadata :: metadata

definition getAllMovies :: "env \<Rightarrow> movie list \<Rightarrow> listParams \<Rightarrow> error + listResponse" where
  "getAllMovies e docs p =
     (let sortBy = orElse (p_sortBy p) ''title'' in
      case listQuery e p of
        Inl err \<Rightarrow> Inl err
      | Inr q \<Rightarrow>
          (case cursor e docs q (sortOptions sortBy)
                  (skip (p_page p) (p_limit p)) (limitNum (p_limit p)) of
             Inl err \<Rightarrow> Inl err
           | Inr ms \<Rightarrow>
               (case countDocuments e docs q of
                  Inl err \<Rightarrow> Inl err
                | Inr tot \<Rightarrow>
                    (case (pageNum (p_page p), limitNum (p_limit p)) of
                       (Num pg, Num lmt) \<Rightarrow>
                         Inr \<lparr>lr_movies = ms,
                              lr_pagination = mkPagination pg lmt tot,
                              lr_metadata =
                                \<lparr>md_availableGenres = availableGenres docs,
                                 md_yearRange = yearRange docs,
                                 md_searchQuery = orElse (p_search p) [],
                                 md_appliedFilters =
                                   \<lparr>af_genre = orNull (orElse (p_genre p) []),
                                    af_year = orNull (orElse (p_year p) []),
                                    af_decade = orNull (orElse (p_decade p) []),
                                    af_minRating = orNull (orElse (p_minRating p) []),
                                    af_maxRating = orNull (orElse (p_maxRating p) []),
                                    af_sortBy = sortBy\<rparr>\<rparr>\<rparr>
                     | _ \<Rightarrow> Inl InternalError))))"

subsection \<open>getMovieById\<close>

record relatedItem =
  ri_id :: nat
  ri_title :: string
  ri_year :: "int option"
  ri_poster :: "string option"
  ri_rating :: "rat option"
  ri_genres :: "string list"

definition selectRelated :: "movie \<Rightarrow> relatedItem" where
  "selectRelated m =
     \<lparr>ri_id = doc_id m, ri_title = title m, ri_year = year m, ri_poster = poster m,
      ri_rating = rating m, ri_genres = genres m\<rparr>"

record detailResponse =
  dr_movie :: movie
  dr_relatedMovies :: "relatedItem list"

definition relatedQuery :: "nat \<Rightarrow> movie \<Rightarrow> query" where
  "relatedQuery i m =
     emptyQuery\<lparr>q_id_ne := Some i, q_status := Some (StatusIs Active),
                q_or := Some [GenresIn (genres m), DirectorIs (director m)]\<rparr>"

text \<open>
  The view counter is raised and saved without waiting; a failure of that save is
  logged and dropped. The response carries the loaded document, as the save left it
  in memory, through \<open>toJSON\<close>.
\<close>

definition getMovieById ::
  "env \<Rightarrow> int \<Rightarrow> movie list \<Rightarrow> nat \<Rightarrow> (error + detailResponse) \<times> movie list" where
  "getMovieById e now docs i =
     (case findById docs i of
        None \<Rightarrow> (Inl (NotFound i), docs)
      | Some m \<Rightarrow>
          if status m = Deleted then (Inl (NotFound i), docs)
          else
            (let sv = incrementView e now docs m;
                 docs' = (case snd sv of Inl err \<Rightarrow> docs | Inr ds \<Rightarrow> ds)
             in case cursor e docs (relatedQuery i m) [] (Num 0) (Num 6) of
                  Inl err \<Rightarrow> (Inl err, docs')
                | Inr rel \<Rightarrow>
                    (Inr \<lparr>dr_movie = toJSON (fst sv),
                          dr_relatedMovies = map selectRelated rel\<rparr>, docs')))"

subsection \<open>createMovie, updateMovie, deleteMovie\<close>

text \<open>A value in a template literal: \<open>undefined\<close> prints as the word.\<close>

definition titleText :: "string option \<Rightarrow> string" where
  "titleText t = orElse t ''undefined''"

definition yearOfBody :: "int option \<Rightarrow> yearCond" where
  "yearOfBody y = (case y of None \<Rightarrow> YearUndefined | Some n \<Rightarrow> YearEq (Num n))"

definition duplicateQuery :: "string \<Rightarrow> int option \<Rightarrow> query" where
  "duplicateQuery pat y =
     emptyQuery\<lparr>q_title := Some pat, q_year := Some (yearOfBody y),
                q_status := Some (StatusNot Deleted)\<rparr>"

definition createMovie ::
  "env \<Rightarrow> int \<Rightarrow> movie list \<Rightarrow> body \<Rightarrow> (error + movie) \<times> movie list" where
  "createMovie e now docs reqBody =
     (let movieData = reqBody\<lparr>b_source := Some ''user''\<rparr>;
          pat = ''^'' @ titleText (b_title movieData) @ ''$''
      in case findOne e docs (duplicateQuery pat (b_year movieData)) of
           Inl err \<Rightarrow> (Inl err, docs)
         | Inr (Some existingMovie) \<Rightarrow>
             (Inl (Duplicate (b_title movieData) (b_year movieData)), docs)
         | Inr None \<Rightarrow>
             (case save e now docs (newMovie (freshId docs) movieData) of
                Inl err \<Rightarrow> (Inl err, docs)
              | Inr (savedMovie, docs') \<Rightarrow> (Inr (toJSON savedMovie), docs')))"

definition truthyStr :: "string option \<Rightarrow> bool" where
  "truthyStr s = (case s of None \<Rightarrow> False | Some t \<Rightarrow> t \<noteq> [])"

definition truthyNum :: "int option \<Rightarrow> bool" where
  "truthyNum n = (case n of None \<Rightarrow> False | Some k \<Rightarrow> k \<noteq> 0)"

definition updatePattern :: "string option \<Rightarrow> string" where
  "updatePattern t =
     ''^'' @ (case t of None \<Rightarrow> ''.*'' | Some s \<Rightarrow> if s \<noteq> [] then s else ''.*'') @ ''$''"

text \<open>
  The duplicate check of \<open>updateMovie\<close>, made when the body carries a title or a year:
  another document that is not deleted, whose title matches the pattern and whose year
  is the year of the body (which is \<open>undefined\<close> when the body has none).
\<close>

definition updateConflict :: "env \<Rightarrow> movie list \<Rightarrow> nat \<Rightarrow> body \<Rightarrow> error + movie option" where
  "updateConflict e docs i updateData =
     (if truthyStr (b_title updateData) \<or> truthyNum (b_year updateData)
      then findOne e docs
             ((duplicateQuery (updatePattern (b_title updateData)) (b_year updateData))
                \<lparr>q_id_ne := Some i\<rparr>)
      else Inr None)"

text \<open>
  \<open>updateMovie\<close>: the duplicate check, then \<open>findByIdAndUpdate\<close> with the update
  validators, then the test of the returned document.
\<close>

definition updateMovie ::
  "env \<Rightarrow> int \<Rightarrow> movie list \<Rightarrow> nat \<Rightarrow> body \<Rightarrow> (error + movie) \<times> movie list" where
  "updateMovie e now docs i updateData =
     (case updateConflict e docs i updateData of
        Inl err \<Rightarrow> (Inl err, docs)
      | Inr (Some existingMovie) \<Rightarrow>
          (Inl (Duplicate (b_title updateData) (b_year updateData)), docs)
      | Inr None \<Rightarrow>
          if \<not> validUpdate e updateData then (Inl ValidationError, docs)
          else
            (case findByIdAndUpdate docs i
                    (\<lambda>m. (applyUpdate updateData m)\<lparr>updatedAt := now\<rparr>) of
               (None, docs') \<Rightarrow> (Inl (NotFound i), docs')
             | (Some m, docs') \<Rightarrow>
                 if status m = Deleted then (Inl (NotFound i), docs')
                 else (Inr (toJSON m), docs')))"

record deletedMovie =
  dm_id :: nat
  dm_title :: string
  dm_year :: "int option"

definition deleteMovie ::
  "int \<Rightarrow> movie list \<Rightarrow> nat \<Rightarrow> (error + deletedMovie) \<times> movie list" where
  "deleteMovie now docs i =
     (case findByIdAndUpdate docs i
             (\<lambda>m. m\<lparr>status := Deleted, deletedAt := Some now, updatedAt := now\<rparr>) of
        (None, docs') \<Rightarrow> (Inl (NotFound i), docs')
      | (Some m, docs') \<Rightarrow>
          (Inr \<lparr>dm_id = doc_id m, dm_title = title m, dm_year = year m\<rparr>, docs'))"

subsection \<open>getSearchSuggestions\<close>

record suggestion =
  sg_id :: nat
  sg_title :: string
  sg_year :: "int option"
  sg_director :: "string option"
  sg_display :: string

definition yearText :: "int option \<Rightarrow> string" where
  "yearText y = (case y of None \<Rightarrow> ''undefined'' | Some n \<Rightarrow> showInt n)"

definition formatSuggestion :: "movie \<Rightarrow> suggestion" where
  "formatSuggestion m =
     \<lparr>sg_id = doc_id m, sg_title = title m, sg_year = year m, sg_director = director m,
      sg_display = title m @ '' ('' @ yearText (year m) @ '')''\<rparr>"

definition getSearchSuggestions ::
  "env \<Rightarrow> movie list \<Rightarrow> string option \<Rightarrow> error + suggestion list" where
  "getSearchSuggestions e docs q =
     (case q of
        None \<Rightarrow> Inr []
      | Some s \<Rightarrow>
          if length s < 2 then Inr []
          else
            (case cursor e docs
                    (emptyQuery\<lparr>q_status := Some (StatusIs Active), q_title := Some s\<rparr>)
                    [(SViewCount, False), (STitle, True)] (Num 0) (Num 10) of
               Inl err \<Rightarrow> Inl err
             | Inr suggestions \<Rightarrow> Inr (map formatSuggestion suggestions)))"

subsection \<open>getTrendingMovies\<close>

record trendingItem =
  ti_id :: nat
  ti_title :: string
  ti_director :: "string option"
  ti_year :: "int option"
  ti_poster :: "string option"
  ti_rating :: "rat option"
  ti_viewCount :: int
  ti_favorites :: int
  ti_genres :: "string list"

definition selectTrending :: "movie \<Rightarrow> trendingItem" where
  "selectTrending m =
     \<lparr>ti_id = doc_id m, ti_title = title m, ti_director = director m, ti_year = year m,
      ti_poster = poster m, ti_rating = rating m, ti_viewCount = viewCount m,
      ti_favorites = favorites m, ti_genres = genres m\<rparr>"

record trendingResponse =
  tr_movies :: "trendingItem list"
  tr_period :: string
  tr_count :: nat

definition dateFilter :: "int \<Rightarrow> string \<Rightarrow> int option" where
  "dateFilter now period =
     (if period = ''day'' then Some (now - 24 * 60 * 60 * 1000)
      else if period = ''week'' then Some (now - 7 * 24 * 60 * 60 * 1000)
      else if period = ''month'' then Some (now - 30 * 24 * 60 * 60 * 1000)
      else None)"

definition getTrendingMovies ::
  "env \<Rightarrow> int \<Rightarrow> movie list \<Rightarrow> string option \<Rightarrow> string option \<Rightarrow> error + trendingResponse"
  where
  "getTrendingMovies e now docs period limit =
     (let pd = orElse period ''week'' in
      case cursor e docs
             (emptyQuery\<lparr>q_status := Some (StatusIs Active),
                         q_updatedAt_gte := dateFilter now pd\<rparr>)
             [(SViewCount, False), (SFavorites, False), (SRating, False)]
             (Num 0) (parseInt (orElse limit ''10'')) of
        Inl err \<Rightarrow> Inl err
      | Inr ms \<Rightarrow>
          Inr \<lparr>tr_movies = map selectTrending ms, tr_period = pd, tr_count = length ms\<rparr>)"

subsection \<open>getMoviesByGenre\<close>

definition genreSortOptions :: "string \<Rightarrow> sortSpec" where
  "genreSortOptions sortBy =
     (if sortBy = ''year'' then [(SYear, False), (STitle, True)]
      else if sortBy = ''rating'' then [(SRating, False), (SVotes, False)]
      else if sortBy = ''popularity'' then [(SViewCount, False), (SFavorites, False)]
      else if sortBy = ''alphabetical'' then [(STitle, True)]
      else [(SRating, False), (SVotes, False)])"

record genreResponse =
  gr_movies :: "movie list"
  gr_pagination :: pagination
  gr_genre :: string
  gr_sortBy :: string

definition getMoviesByGenre ::
  "env \<Rightarrow> movie list \<Rightarrow> string \<Rightarrow> string option \<Rightarrow> string option \<Rightarrow> string option
     \<Rightarrow> error + genreResponse" where
  "getMoviesByGenre e docs genre page limit sortByParam =
     (let sortBy = orElse sortByParam ''rating'';
          q = emptyQuery\<lparr>q_status := Some (StatusIs Active), q_genres := Some genre\<rparr>
      in if regexp e genre = None then Inl InternalError
         else
           (case cursor e docs q (genreSortOptions sortBy) (skip page limit) (limitNum limit) of
              Inl err \<Rightarrow> Inl err
            | Inr ms \<Rightarrow>
                (case countDocuments e docs q of
                   Inl err \<Rightarrow> Inl err
                 | Inr tot \<Rightarrow>
                     (case (pageNum page, limitNum limit) of
                        (Num pg, Num lmt) \<Rightarrow>
                          Inr \<lparr>gr_movies = ms, gr_pagination = mkPagination pg lmt tot,
                               gr_genre = genre, gr_sortBy = sortBy\<rparr>
                      | _ \<Rightarrow> Inl InternalError))))"

subsection \<open>exportMovies\<close>

text \<open>
  The export lists every document when \<open>includeDeleted\<close> is the string \<open>true\<close>, and the
  active ones otherwise, by title. With \<open>format=csv\<close> one row is written per exported
  document; the rows are represented by the documents they are written from.
\<close>

datatype exportResponse = ExportJson "movie list" nat | ExportCsv "movie list"

definition exportMovies ::
  "env \<Rightarrow> movie list \<Rightarrow> string option \<Rightarrow> string option \<Rightarrow> error + exportResponse" where
  "exportMovies e docs format includeDeleted =
     (let q = (if includeDeleted = Some ''true'' then emptyQuery else activeQuery) in
      case find e docs q of
        Inl err \<Rightarrow> Inl err
      | Inr ms \<Rightarrow>
          (let movies = sortDocs [(STitle, True)] ms in
           if format = Some ''csv'' then Inr (ExportCsv movies)
           else Inr (ExportJson movies (length movies))))"

section \<open>Words of a title\<close>





section \<open>Sample data\<close>

text \<open>
  An environment with the engine \<open>regexp_i\<close> and the driver's default for
  \<open>ignoreUndefined\<close>, an empty request body, an empty parameter set and a small
  collection, for the concrete instances below.
\<close>

definition env0 :: env where
  "env0 = \<lparr>regexp = regexp_i, ignoreUndefined = False, startYear = 2025\<rparr>"

definition emptyBody :: body where
  "emptyBody =
     \<lparr>b_title = None, b_plot = None, b_genres = None, b_year = None, b_runtime = None,
      b_director = None, b_cast = None, b_rating = None, b_votes = None, b_poster = None,
      b_status = None, b_source = None, b_favorites = None, b_viewCount = None\<rparr>"

definition noParams :: listParams where
  "noParams =
     \<lparr>p_page = None, p_limit = None, p_search = None, p_genre = None, p_year = None,
      p_decade = None, p_minRating = None, p_maxRating = None, p_sortBy = None,
      p_source = None\<rparr>"

definition alien :: movie where
  "alien = newMovie 1 (emptyBody\<lparr>b_title := Some ''Alien'', b_year := Some 1979,
                                b_genres := Some [''Horror''], b_rating := Some (7666 / 1000)\<rparr>)"

definition aliens :: movie where
  "aliens = newMovie 2 (emptyBody\<lparr>b_title := Some ''Aliens'', b_year := Some 1986,
                                 b_genres := Some [''Horror''], b_status := Some Deleted\<rparr>)"

definition alibi :: movie where
  "alibi = newMovie 3 (emptyBody\<lparr>b_title := Some ''Alibi'', b_year := Some 1929,
                                b_genres := Some [''Horror'', ''Crime'']\<rparr>)"

definition sampleDocs :: "movie list" where
  "sampleDocs = [alien, aliens, alibi]"

definition mash :: movie where
  "mash = newMovie 1 (emptyBody\<lparr>b_title := Some ''M*a*s*h'', b_year := Some 1970\<rparr>)"

definition newMash :: body where
  "newMash = emptyBody\<lparr>b_title := Some ''M*A*S*H'', b_year := Some 1970,
                       b_director := Some ''Robert Altman''\<rparr>"

definition newDirector :: body where
  "newDirector = emptyBody\<lparr>b_director := Some ''James Cameron''\<rparr>"

definition reactivate :: body where
  "reactivate = emptyBody\<lparr>b_director := Some ''James Cameron'', b_status := Some Active\<rparr>"







definition noYear :: movie where
  "noYear = newMovie 4 (emptyBody\<lparr>b_title := Some ''Alien''\<rparr>)"

definition twoLines :: movie where
  "twoLines = newMovie 1 (emptyBody\<lparr>b_title := Some [CHR ''a'', CHR 0x0A, CHR ''b''],
                                   b_year := Some 1979\<rparr>)"

definition titleOnly :: body where
  "titleOnly = emptyBody\<lparr>b_title := Some ''Alien''\<rparr>"

definition yearOnly :: body where
  "yearOnly = emptyBody\<lparr>b_year := Some 1979\<rparr>"

section \<open>Soft-deleted documents and the read handlers\<close>

lemma set_insertDoc: "set (insertDoc sp d xs) = insert d (set xs)"
  by (induction xs) auto

lemma set_sortDocs: "set (sortDocs sp ds) = set ds"
  unfolding sortDocs_def by (induction ds) (auto simp: set_insertDoc)

lemma length_insertDoc: "length (insertDoc sp d xs) = Suc (length xs)"
  by (induction xs) auto

lemma length_sortDocs: "length (sortDocs sp ds) = length ds"
  unfolding sortDocs_def by (induction ds) (auto simp: length_insertDoc)

lemma skipDocs_set: "skipDocs sk xs = Inr ys \<Longrightarrow> set ys \<subseteq> set xs"
  by (cases sk) (auto split: if_splits dest: in_set_dropD)

lemma limitDocs_set: "limitDocs lm xs = Inr ys \<Longrightarrow> set ys \<subseteq> set xs"
  by (cases lm) (auto split: if_splits dest: in_set_takeD)

lemma find_set: "find e docs q = Inr ms \<Longrightarrow> set ms = {m \<in> set docs. matches e q m}"
  by (auto simp: find_def split: if_splits)

lemma cursor_set:
  assumes "cursor e docs q sp sk lm = Inr ms"
  shows "set ms \<subseteq> {m \<in> set docs. matches e q m}"
proof -
  from assms obtain fs ss where f: "find e docs q = Inr fs"
    and s: "skipDocs sk (sortDocs sp fs) = Inr ss" and l: "limitDocs lm ss = Inr ms"
    by (auto simp: cursor_def split: sum.splits)
  have "set ms \<subseteq> set ss" using l by (rule limitDocs_set)
  also have "\<dots> \<subseteq> set (sortDocs sp fs)" using s by (rule skipDocs_set)
  also have "\<dots> = set fs" by (rule set_sortDocs)
  also have "\<dots> = {m \<in> set docs. matches e q m}" using f by (rule find_set)
  finally show ?thesis .
qed

lemma matches_active: "q_status q = Some (StatusIs Active) \<Longrightarrow> matches e q m \<Longrightarrow> status m = Active"
  by (simp add: matches_def opt_all_def)

lemma cursor_active:
  assumes "cursor e docs q sp sk lm = Inr ms" "q_status q = Some (StatusIs Active)" "m \<in> set ms"
  shows "m \<in> set docs \<and> status m = Active"
  using cursor_set[OF assms(1)] assms(2,3) matches_active by blast

lemma listQuery_status: "listQuery e p = Inr q \<Longrightarrow> q_status q = Some (StatusIs Active)"
  by (auto simp: listQuery_def Let_def emptyQuery_def split: if_splits)

lemma getAllMovies_active:
  assumes "getAllMovies e docs p = Inr r" "m \<in> set (lr_movies r)"
  shows "m \<in> set docs \<and> status m = Active"
proof -
  from assms(1) obtain q where q: "listQuery e p = Inr q"
    and c: "cursor e docs q (sortOptions (orElse (p_sortBy p) ''title''))
              (skip (p_page p) (p_limit p)) (limitNum (p_limit p)) = Inr (lr_movies r)"
    by (auto simp: getAllMovies_def Let_def split: sum.splits jsnum.splits)
  show ?thesis using cursor_active[OF c listQuery_status[OF q] assms(2)] .
qed

lemma getMovieById_active:
  assumes "fst (getMovieById e now docs i) = Inr r"
  shows "(\<exists>m \<in> set docs. doc_id m = doc_id (dr_movie r) \<and> status m \<noteq> Deleted)
         \<and> (\<forall>x \<in> set (dr_relatedMovies r). \<exists>m \<in> set docs. doc_id m = ri_id x \<and> status m = Active)"
proof -
  from assms obtain m where fm: "findById docs i = Some m" and nd: "status m \<noteq> Deleted"
    by (auto simp: getMovieById_def Let_def split: option.splits if_splits)
  from assms fm nd obtain rel where
      c: "cursor e docs (relatedQuery i m) [] (Num 0) (Num 6) = Inr rel"
      and r: "r = \<lparr>dr_movie = toJSON (fst (incrementView e now docs m)),
                  dr_relatedMovies = map selectRelated rel\<rparr>"
    by (auto simp: getMovieById_def Let_def split: sum.splits)
  have mem: "m \<in> set docs"
    using fm by (auto simp: findById_def find_Some_iff)
  have id: "doc_id (dr_movie r) = doc_id m"
    by (simp add: r toJSON_def incrementView_def preSave_def Let_def split: option.splits)
  have rq: "q_status (relatedQuery i m) = Some (StatusIs Active)"
    by (simp add: relatedQuery_def emptyQuery_def)
  have "\<forall>x \<in> set rel. x \<in> set docs \<and> status x = Active"
    using cursor_active[OF c rq] by blast
  then have "\<forall>x \<in> set (dr_relatedMovies r). \<exists>m \<in> set docs. doc_id m = ri_id x \<and> status m = Active"
    by (auto simp: r selectRelated_def)
  with mem id nd show ?thesis by auto
qed

lemma getSearchSuggestions_active:
  assumes "getSearchSuggestions e docs q = Inr r" "x \<in> set r"
  shows "\<exists>m \<in> set docs. doc_id m = sg_id x \<and> status m = Active"
proof (cases q)
  case None
  with assms show ?thesis by (simp add: getSearchSuggestions_def)
next
  case (Some s)
  show ?thesis
  proof (cases "length s < 2")
    case True
    with assms Some show ?thesis by (simp add: getSearchSuggestions_def)
  next
    case False
    with assms(1) Some obtain ms where
      c: "cursor e docs (emptyQuery\<lparr>q_status := Some (StatusIs Active), q_title := Some s\<rparr>)
            [(SViewCount, False), (STitle, True)] (Num 0) (Num 10) = Inr ms"
      and r: "r = map formatSuggestion ms"
      by (auto simp: getSearchSuggestions_def split: sum.splits)
    have "\<forall>m \<in> set ms. m \<in> set docs \<and> status m = Active"
      using cursor_active[OF c] by simp
    with assms(2) show ?thesis by (auto simp: r formatSuggestion_def)
  qed
qed

lemma getTrendingMovies_active:
  assumes "getTrendingMovies e now docs period limit = Inr r" "x \<in> set (tr_movies r)"
  shows "\<exists>m \<in> set docs. doc_id m = ti_id x \<and> status m = Active"
proof -
  from assms(1) obtain ms where
    c: "cursor e docs
          (emptyQuery\<lparr>q_status := Some (StatusIs Active),
                      q_updatedAt_gte := dateFilter now (orElse period ''week'')\<rparr>)
          [(SViewCount, False), (SFavorites, False), (SRating, False)]
          (Num 0) (parseInt (orElse limit ''10'')) = Inr ms"
    and r: "tr_movies r = map selectTrending ms"
    by (auto simp: getTrendingMovies_def Let_def split: sum.splits)
  have "\<forall>m \<in> set ms. m \<in> set docs \<and> status m = Active"
    using cursor_active[OF c] by simp
  with assms(2) show ?thesis by (auto simp: r selectTrending_def)
qed

lemma getMoviesByGenre_active:
  assumes "getMoviesByGenre e docs genre page limit sortBy = Inr r" "m \<in> set (gr_movies r)"
  shows "m \<in> set docs \<and> status m = Active"
proof -
  from assms(1) have
    c: "cursor e docs (emptyQuery\<lparr>q_status := Some (StatusIs Active), q_genres := Some genre\<rparr>)
          (genreSortOptions (orElse sortBy ''rating'')) (skip page limit) (limitNum limit)
        = Inr (gr_movies r)"
    by (auto simp: getMoviesByGenre_def Let_def split: sum.splits jsnum.splits if_splits)
  show ?thesis using cursor_active[OF c _ assms(2)] by simp
qed

lemma distinct_ids_status:
  assumes "distinct (map doc_id docs)" "d \<in> set docs" "m \<in> set docs" "doc_id m = doc_id d"
  shows "m = d"
  using assms by (meson distinct_map inj_onD)

text \<open>
  Claim C1. Identifiers are unique in the collection. For a document whose status is
  \<open>deleted\<close>, none of \<open>getAllMovies\<close>, \<open>getMovieById\<close> (neither as the movie nor among
  the related movies), \<open>getSearchSuggestions\<close>, \<open>getTrendingMovies\<close> and
  \<open>getMoviesByGenre\<close> has it in its response, whatever the parameters, the engine and
  the time are.
\<close>

theorem deleted_never_returned:
  assumes "distinct (map doc_id docs)" and "d \<in> set docs" and "status d = Deleted"
  shows "(\<forall>r. getAllMovies e docs p = Inr r \<longrightarrow> doc_id d \<notin> doc_id ` set (lr_movies r))
       \<and> (\<forall>r. fst (getMovieById e now docs i) = Inr r \<longrightarrow>
              doc_id d \<noteq> doc_id (dr_movie r) \<and> doc_id d \<notin> ri_id ` set (dr_relatedMovies r))
       \<and> (\<forall>r. getSearchSuggestions e docs q = Inr r \<longrightarrow> doc_id d \<notin> sg_id ` set r)
       \<and> (\<forall>r. getTrendingMovies e now docs period tlimit = Inr r \<longrightarrow>
              doc_id d \<notin> ti_id ` set (tr_movies r))
       \<and> (\<forall>r. getMoviesByGenre e docs genre page glimit sortBy = Inr r \<longrightarrow>
              doc_id d \<notin> doc_id ` set (gr_movies r))"
proof -
  have key: "\<And>m. m \<in> set docs \<Longrightarrow> doc_id m = doc_id d \<Longrightarrow> status m = Deleted"
    using distinct_ids_status[OF assms(1,2)] assms(3) by blast
  have a: "\<forall>r. getAllMovies e docs p = Inr r \<longrightarrow> doc_id d \<notin> doc_id ` set (lr_movies r)"
    using getAllMovies_active key by fastforce
  have b: "\<forall>r. fst (getMovieById e now docs i) = Inr r \<longrightarrow>
              doc_id d \<noteq> doc_id (dr_movie r) \<and> doc_id d \<notin> ri_id ` set (dr_relatedMovies r)"
  proof (intro allI impI)
    fix r assume "fst (getMovieById e now docs i) = Inr r"
    from getMovieById_active[OF this] key
    show "doc_id d \<noteq> doc_id (dr_movie r) \<and> doc_id d \<notin> ri_id ` set (dr_relatedMovies r)"
      by fastforce
  qed
  have c: "\<forall>r. getSearchSuggestions e docs q = Inr r \<longrightarrow> doc_id d \<notin> sg_id ` set r"
    using getSearchSuggestions_active key by fastforce
  have t: "\<forall>r. getTrendingMovies e now docs period tlimit = Inr r \<longrightarrow>
              doc_id d \<notin> ti_id ` set (tr_movies r)"
    using getTrendingMovies_active key by fastforce
  have g: "\<forall>r. getMoviesByGenre e docs genre page glimit sortBy = Inr r \<longrightarrow>
              doc_id d \<notin> doc_id ` set (gr_movies r)"
    using getMoviesByGenre_active key by fastforce
  from a b c t g show ?thesis by blast
qed

text \<open>
  An instance on the sample collection, where every handler answers with a non-empty
  list and \<open>aliens\<close> is the deleted document.
\<close>

theorem deleted_never_returned_witness:
  "distinct (map doc_id sampleDocs) \<and> aliens \<in> set sampleDocs \<and> status aliens = Deleted
   \<and> (\<exists>r. getAllMovies env0 sampleDocs (noParams\<lparr>p_search := Some ''ali''\<rparr>) = Inr r
          \<and> lr_movies r \<noteq> [] \<and> doc_id aliens \<notin> doc_id ` set (lr_movies r))
   \<and> (\<exists>r. fst (getMovieById env0 100 sampleDocs 1) = Inr r
          \<and> dr_relatedMovies r \<noteq> []
          \<and> doc_id aliens \<noteq> doc_id (dr_movie r)
          \<and> doc_id aliens \<notin> ri_id ` set (dr_relatedMovies r))
   \<and> (\<exists>r. getSearchSuggestions env0 sampleDocs (Some ''al'') = Inr r
          \<and> r \<noteq> [] \<and> doc_id aliens \<notin> sg_id ` set r)
   \<and> (\<exists>r. getTrendingMovies env0 100 sampleDocs None None = Inr r
          \<and> tr_movies r \<noteq> [] \<and> doc_id aliens \<notin> ti_id ` set (tr_movies r))
   \<and> (\<exists>r. getMoviesByGenre env0 sampleDocs ''horror'' None None None = Inr r
          \<and> gr_movies r \<noteq> [] \<and> doc_id aliens \<notin> doc_id ` set (gr_movies r))"
proof -
  have h1: "distinct (map doc_id sampleDocs)" by code_simp
  have h2: "aliens \<in> set sampleDocs" by (simp add: sampleDocs_def)
  have h3: "status aliens = Deleted" by code_simp
  note inst = deleted_never_returned[OF h1 h2 h3, where e = env0
      and p = "noParams\<lparr>p_search := Some ''ali''\<rparr>" and now = 100 and i = 1
      and q = "Some ''al''" and period = None and tlimit = None
      and genre = "''horror''" and page = None and glimit = None and sortBy = None]
  have e1: "case getAllMovies env0 sampleDocs (noParams\<lparr>p_search := Some ''ali''\<rparr>) of
              Inl _ \<Rightarrow> False | Inr r \<Rightarrow> lr_movies r \<noteq> []" by code_simp
  have e2: "case fst (getMovieById env0 100 sampleDocs 1) of
              Inl _ \<Rightarrow> False | Inr r \<Rightarrow> dr_relatedMovies r \<noteq> []" by code_simp
  have e3: "case getSearchSuggestions env0 sampleDocs (Some ''al'') of
              Inl _ \<Rightarrow> False | Inr r \<Rightarrow> r \<noteq> []" by code_simp
  have e4: "case getTrendingMovies env0 100 sampleDocs None None of
              Inl _ \<Rightarrow> False | Inr r \<Rightarrow> tr_movies r \<noteq> []" by code_simp
  have e5: "case getMoviesByGenre env0 sampleDocs ''horror'' None None None of
              Inl _ \<Rightarrow> False | Inr r \<Rightarrow> gr_movies r \<noteq> []" by code_simp
  from e1 inst have c1: "\<exists>r. getAllMovies env0 sampleDocs (noParams\<lparr>p_search := Some ''ali''\<rparr>) = Inr r
          \<and> lr_movies r \<noteq> [] \<and> doc_id aliens \<notin> doc_id ` set (lr_movies r)"
    by (auto split: sum.splits)
  from e2 inst have c2: "\<exists>r. fst (getMovieById env0 100 sampleDocs 1) = Inr r
          \<and> dr_relatedMovies r \<noteq> []
          \<and> doc_id aliens \<noteq> doc_id (dr_movie r)
          \<and> doc_id aliens \<notin> ri_id ` set (dr_relatedMovies r)"
    by (auto split: sum.splits)
  from e3 inst have c3: "\<exists>r. getSearchSuggestions env0 sampleDocs (Some ''al'') = Inr r
          \<and> r \<noteq> [] \<and> doc_id aliens \<notin> sg_id ` set r"
    by (auto split: sum.splits)
  from e4 inst have c4: "\<exists>r. getTrendingMovies env0 100 sampleDocs None None = Inr r
          \<and> tr_movies r \<noteq> [] \<and> doc_id aliens \<notin> ti_id ` set (tr_movies r)"
    by (auto split: sum.splits)
  from e5 inst have c5: "\<exists>r. getMoviesByGenre env0 sampleDocs ''horror'' None None None = Inr r
          \<and> gr_movies r \<noteq> [] \<and> doc_id aliens \<notin> doc_id ` set (gr_movies r)"
    by (auto split: sum.splits)
  from h1 h2 h3 c1 c2 c3 c4 c5 show ?thesis by blast
qed

section \<open>The filter for year and decade\<close>





section \<open>Paging\<close>








section \<open>Ratings in responses\<close>

text \<open>
  Claim C5 at a stored rating of 7.666. \<open>getAllMovies\<close> reads with \<open>lean()\<close>, so its
  movies do not pass through \<open>toJSON\<close> and the rating is rendered as stored;
  \<open>getMovieById\<close> serialises a document of the model and renders 7.7.
\<close>

theorem listing_rating_not_rounded:
  "rating alien = Some (7666 / 1000)
   \<and> \<not> isl (getAllMovies env0 [alien] noParams)
   \<and> map rating (lr_movies (projr (getAllMovies env0 [alien] noParams))) = [Some (7666 / 1000)]
   \<and> \<not> isl (fst (getMovieById env0 100 [alien] 1))
   \<and> rating (dr_movie (projr (fst (getMovieById env0 100 [alien] 1)))) = Some (77 / 10)"
  by code_simp

section \<open>Deleting twice\<close>


text \<open>
  The other half of the claim holds: \<open>deleteMovie\<close> keeps every document, and an export
  with \<open>includeDeleted=true\<close> lists the whole collection.
\<close>

lemma updateById_ids:
  assumes "\<And>m. doc_id (f m) = doc_id m"
  shows "map doc_id (updateById i f ds) = map doc_id ds"
  using assms by (induction ds) auto

lemma deleteMovie_keeps_documents:
  "map doc_id (snd (deleteMovie now docs i)) = map doc_id docs"
  by (auto simp: deleteMovie_def findByIdAndUpdate_def updateById_ids split: option.splits)

lemma export_includes_deleted:
  "\<exists>ms. (exportMovies e docs fmt (Some ''true'') = Inr (ExportJson ms (length ms))
          \<or> exportMovies e docs fmt (Some ''true'') = Inr (ExportCsv ms))
        \<and> set ms = set docs"
proof -
  have f: "find e docs emptyQuery = Inr docs"
    by (simp add: find_def castFails_def queryPatterns_def emptyQuery_def matches_def opt_all_def)
  show ?thesis
    by (cases "fmt = Some ''csv''") (simp_all add: exportMovies_def f Let_def set_sortDocs)
qed

section \<open>The duplicate check of createMovie\<close>

text \<open>
  Claim C6 at a title with characters that are special in a pattern. The collection
  holds the active movie \<open>M*a*s*h\<close> of 1970; a request to create \<open>M*A*S*H\<close>, 1970, has
  the same title up to case and the same year, yet the pattern \<open>^M*A*S*H$\<close> does not
  match the stored title, no conflict is found and a second document is stored.
\<close>

theorem duplicate_not_detected:
  "map title [mash] = [''M*a*s*h''] \<and> map year [mash] = [Some 1970]
   \<and> map status [mash] = [Active]
   \<and> b_title newMash = Some ''M*A*S*H'' \<and> b_year newMash = Some 1970
   \<and> toLowerCase ''M*A*S*H'' = toLowerCase ''M*a*s*h''
   \<and> \<not> isl (fst (createMovie env0 100 [mash] newMash))
   \<and> map title (snd (createMovie env0 100 [mash] newMash)) = [''M*a*s*h'', ''M*a*s*h'']
   \<and> map year (snd (createMovie env0 100 [mash] newMash)) = [Some 1970, Some 1970]
   \<and> map status (snd (createMovie env0 100 [mash] newMash)) = [Active, Active]"
  by code_simp

section \<open>Updating a deleted document\<close>

text \<open>
  Claim C7 at a deleted target: \<open>updateMovie\<close> reports not-found with the identifier,
  but \<open>findByIdAndUpdate\<close> has already written the new director and time stamp to the
  stored document. When the body also sets the status, the deleted document is made
  active again and the update succeeds.
\<close>

theorem failed_update_writes:
  "map_option status (findById sampleDocs 2) = Some Deleted
   \<and> fst (updateMovie env0 100 sampleDocs 2 newDirector) = Inl (NotFound 2)
   \<and> map director sampleDocs = [None, None, None]
   \<and> map director (snd (updateMovie env0 100 sampleDocs 2 newDirector))
       = [None, Some ''James Cameron'', None]
   \<and> map updatedAt sampleDocs = [0, 0, 0]
   \<and> map updatedAt (snd (updateMovie env0 100 sampleDocs 2 newDirector)) = [0, 100, 0]
   \<and> \<not> isl (fst (updateMovie env0 100 sampleDocs 2 reactivate))
   \<and> map status (snd (updateMovie env0 100 sampleDocs 2 reactivate))
       = [Active, Active, Active]"
  by code_simp

text \<open>
  For a target that is absent the claim holds, when no conflict and no validation error
  comes first: the answer is not-found with the identifier and the collection is as
  before.
\<close>

lemma update_absent_target:
  assumes "findById docs i = None" and "updateConflict e docs i u = Inr None"
    and "validUpdate e u"
  shows "updateMovie e now docs i u = (Inl (NotFound i), docs)"
  using assms by (simp add: updateMovie_def findByIdAndUpdate_def)

section \<open>The search string\<close>












section \<open>The duplicate check of updateMovie\<close>

text \<open>
  Claim C9, as stated, with \<open>ignoreUndefined\<close> not set. A body with the title \<open>Alien\<close>
  and no year meets the active movie \<open>Alien\<close> of 1979 and finds no conflict: the filter
  carries \<open>year: undefined\<close>, sent as \<open>null\<close>, which a document with a year does not
  match. A body with the year 1979 and no title finds no conflict with an active movie
  of 1979 whose title has a line break, since \<open>.\<close> does not match a line break.
\<close>

theorem update_conflict_counterexample:
  "ignoreUndefined env0 = False
   \<and> map title sampleDocs = [''Alien'', ''Aliens'', ''Alibi'']
   \<and> map year sampleDocs = [Some 1979, Some 1986, Some 1929]
   \<and> updateConflict env0 sampleDocs 3 titleOnly = Inr None
   \<and> title twoLines = [CHR ''a'', CHR 0x0A, CHR ''b''] \<and> year twoLines = Some 1979
   \<and> status twoLines = Active
   \<and> updateConflict env0 [twoLines] 3 yearOnly = Inr None"
  by code_simp

lemma first_of_filter:
  "(case filter P xs of [] \<Rightarrow> None | x # _ \<Rightarrow> Some x) = List.find P xs"
  by (induction xs) auto

lemma singleLine_simps:
  "singleLine [] = True"
  "singleLine (CHR 0x0A # xs) = (xs = [])"
  "x \<noteq> CHR 0x0A \<Longrightarrow> singleLine (x # xs) = singleLine xs"
  by (auto simp: singleLine_def dest: in_set_butlastD)

lemma dotstar_iter:
  "length s \<le> n \<Longrightarrow>
   list_ex (\<lambda>st. snd st = [] \<or> snd st = [CHR 0x0A]) (iter n (mtch Dot) (b, s))
   = singleLine s"
proof (induction s arbitrary: n b)
  case Nil
  then show ?case by (cases n) (simp_all add: singleLine_simps)
next
  case (Cons x xs)
  then obtain k where n: "n = Suc k" and k: "length xs \<le> k" by (cases n) auto
  show ?case
  proof (cases "x = CHR 0x0A")
    case True
    then show ?thesis by (simp add: n singleLine_simps)
  next
    case False
    then show ?thesis using Cons.IH[OF k] by (simp add: n singleLine_simps)
  qed
qed

lemma dotstar_bol_False: "mtch (Cat Bol r) (False, s) = []"
  by simp

lemma dotstar_search_False:
  "searchFrom (Cat Bol r) False s = False"
  by (induction s) simp_all

lemma concat_eol:
  "(concat (map (mtch (Cat Eol Eps)) sts) \<noteq> [])
   = list_ex (\<lambda>st. snd st = [] \<or> snd st = [CHR 0x0A]) sts"
  by (induction sts) auto

lemma dotstar_matches:
  "searchFrom (Cat Bol (Cat (Star Dot) (Cat Eol Eps))) True t = singleLine t"
proof -
  have m: "(mtch (Cat Bol (Cat (Star Dot) (Cat Eol Eps))) (True, t) \<noteq> []) = singleLine t"
    using dotstar_iter[of t "length t" True] concat_eol[of "iter (length t) (mtch Dot) (True, t)"]
    by simp
  show ?thesis
  proof (cases t)
    case Nil
    with m show ?thesis by simp
  next
    case (Cons x xs)
    with m show ?thesis by (simp add: dotstar_search_False del: mtch.simps)
  qed
qed

lemma parse_dotstar: "parseRe ''^.*$'' = Inr (Cat Bol (Cat (Star Dot) (Cat Eol Eps)))"
  by code_simp

lemma regexp_i_dotstar:
  "regexp e = regexp_i \<Longrightarrow> regexp e ''^.*$'' \<noteq> None
     \<and> rxTest e ''^.*$'' t = singleLine t"
  by (simp add: rxTest_def regexp_i_def parse_dotstar dotstar_matches)

lemma updatePattern_empty: "\<not> truthyStr t \<Longrightarrow> updatePattern t = ''^.*$''"
  by (auto simp: updatePattern_def truthyStr_def split: option.splits)

lemma findOne_first:
  assumes "\<not> castFails q" and "\<not> list_ex (\<lambda>p. regexp e p = None) (queryPatterns q)"
  shows "findOne e docs q = Inr (List.find (matches e q) docs)"
  using assms by (simp add: findOne_def find_def first_of_filter)

lemma duplicateQuery_casts:
  "\<not> castFails ((duplicateQuery pat y)\<lparr>q_id_ne := j\<rparr>)"
  "\<not> castFails (duplicateQuery pat y)"
  by (cases y; simp add: castFails_def duplicateQuery_def emptyQuery_def yearOfBody_def)+

lemma conflict_title_only:
  assumes "b_title u = Some t" and "t \<noteq> []" and "b_year u = None"
    and "regexp e (''^'' @ t @ ''$'') \<noteq> None"
  shows "updateConflict e docs i u
         = Inr (List.find (\<lambda>m. doc_id m \<noteq> i \<and> status m \<noteq> Deleted
                              \<and> rxTest e (''^'' @ t @ ''$'') (title m)
                              \<and> (ignoreUndefined e \<or> year m = None)) docs)"
proof -
  let ?q = "(duplicateQuery (updatePattern (b_title u)) (b_year u))\<lparr>q_id_ne := Some i\<rparr>"
  have pat: "updatePattern (b_title u) = ''^'' @ t @ ''$''"
    using assms(1,2) by (simp add: updatePattern_def)
  have pats: "\<not> list_ex (\<lambda>p. regexp e p = None) (queryPatterns ?q)"
    using assms(4) by (simp add: queryPatterns_def duplicateQuery_def emptyQuery_def pat)
  have m: "matches e ?q = (\<lambda>m. doc_id m \<noteq> i \<and> status m \<noteq> Deleted
                              \<and> rxTest e (''^'' @ t @ ''$'') (title m)
                              \<and> (ignoreUndefined e \<or> year m = None))"
    using assms(3)
    by (intro ext) (auto simp: matches_def duplicateQuery_def emptyQuery_def opt_all_def pat yearOfBody_def)
  have "updateConflict e docs i u = findOne e docs ?q"
    using assms(1,2) by (simp add: updateConflict_def truthyStr_def)
  also have "\<dots> = Inr (List.find (matches e ?q) docs)" by (rule findOne_first[OF duplicateQuery_casts(1) pats])
  finally show ?thesis by (simp only: m)
qed

lemma conflict_year_only:
  assumes "\<not> truthyStr (b_title u)" and "b_year u = Some y" and "y \<noteq> 0"
    and "regexp e = regexp_i"
  shows "updateConflict e docs i u
         = Inr (List.find (\<lambda>m. doc_id m \<noteq> i \<and> status m \<noteq> Deleted
                              \<and> singleLine (title m) \<and> year m = Some y) docs)"
proof -
  let ?q = "(duplicateQuery (updatePattern (b_title u)) (b_year u))\<lparr>q_id_ne := Some i\<rparr>"
  have pat: "updatePattern (b_title u) = ''^.*$''"
    using assms(1) by (rule updatePattern_empty)
  note ds = regexp_i_dotstar[OF assms(4)]
  have pats: "\<not> list_ex (\<lambda>p. regexp e p = None) (queryPatterns ?q)"
    using ds by (simp add: queryPatterns_def duplicateQuery_def emptyQuery_def pat)
  have m: "matches e ?q = (\<lambda>m. doc_id m \<noteq> i \<and> status m \<noteq> Deleted
                              \<and> singleLine (title m) \<and> year m = Some y)"
    using assms(2) ds
    by (intro ext) (auto simp: matches_def duplicateQuery_def emptyQuery_def opt_all_def pat yearOfBody_def)
  have "updateConflict e docs i u = findOne e docs ?q"
    using assms(2,3) by (simp add: updateConflict_def truthyNum_def)
  also have "\<dots> = Inr (List.find (matches e ?q) docs)" by (rule findOne_first[OF duplicateQuery_casts(1) pats])
  finally show ?thesis by (simp only: m)
qed

lemma create_key:
  assumes "b_year b = Some y" and "regexp e (''^'' @ titleText (b_title b) @ ''$'') \<noteq> None"
  shows "findOne e docs (duplicateQuery (''^'' @ titleText (b_title b) @ ''$'') (b_year b))
         = Inr (List.find (\<lambda>m. status m \<noteq> Deleted
                              \<and> rxTest e (''^'' @ titleText (b_title b) @ ''$'') (title m)
                              \<and> year m = Some y) docs)"
proof -
  let ?q = "duplicateQuery (''^'' @ titleText (b_title b) @ ''$'') (b_year b)"
  have pats: "\<not> list_ex (\<lambda>p. regexp e p = None) (queryPatterns ?q)"
    using assms(2) by (simp add: queryPatterns_def duplicateQuery_def emptyQuery_def)
  have m: "matches e ?q = (\<lambda>m. status m \<noteq> Deleted
                              \<and> rxTest e (''^'' @ titleText (b_title b) @ ''$'') (title m)
                              \<and> year m = Some y)"
    using assms(1)
    by (intro ext) (auto simp: matches_def duplicateQuery_def emptyQuery_def opt_all_def yearOfBody_def)
  show ?thesis by (simp only: findOne_first[OF duplicateQuery_casts(2) pats] m)
qed

text \<open>
  Claim C9, amended. Without a title the pattern is \<open>^.*$\<close>. When the body has a title
  and no year, the check finds the first other document that is not deleted, whose
  title matches \<open>^title$\<close>, and that has no year, or any year if the driver ignores
  \<open>undefined\<close>. When the body has a year (not 0) and no title, the check, with the engine
  \<open>regexp_i\<close>, finds the first other document that is not deleted and has that year,
  whatever its title, provided the title has no line feed (one that ends it apart). The
  check of \<open>createMovie\<close> for a body with a year finds the first document that is not
  deleted, whose title matches and whose year is equal.
\<close>

theorem update_conflict_keys:
  "updatePattern None = ''^.*$''
   \<and> (b_title u = Some t \<and> t \<noteq> [] \<and> b_year u = None
        \<and> regexp e (''^'' @ t @ ''$'') \<noteq> None \<longrightarrow>
      updateConflict e docs i u
      = Inr (List.find (\<lambda>m. doc_id m \<noteq> i \<and> status m \<noteq> Deleted
                           \<and> rxTest e (''^'' @ t @ ''$'') (title m)
                           \<and> (ignoreUndefined e \<or> year m = None)) docs))
   \<and> (\<not> truthyStr (b_title u) \<and> b_year u = Some y \<and> y \<noteq> 0 \<and> regexp e = regexp_i \<longrightarrow>
      updateConflict e docs i u
      = Inr (List.find (\<lambda>m. doc_id m \<noteq> i \<and> status m \<noteq> Deleted
                           \<and> singleLine (title m) \<and> year m = Some y) docs))
   \<and> (b_year b = Some z \<and> regexp e (''^'' @ titleText (b_title b) @ ''$'') \<noteq> None \<longrightarrow>
      findOne e docs (duplicateQuery (''^'' @ titleText (b_title b) @ ''$'') (b_year b))
      = Inr (List.find (\<lambda>m. status m \<noteq> Deleted
                           \<and> rxTest e (''^'' @ titleText (b_title b) @ ''$'') (title m)
                           \<and> year m = Some z) docs))"
proof -
  have p: "updatePattern None = ''^.*$''" by (simp add: updatePattern_def)
  have a: "b_title u = Some t \<and> t \<noteq> [] \<and> b_year u = None
        \<and> regexp e (''^'' @ t @ ''$'') \<noteq> None \<longrightarrow>
      updateConflict e docs i u
      = Inr (List.find (\<lambda>m. doc_id m \<noteq> i \<and> status m \<noteq> Deleted
                           \<and> rxTest e (''^'' @ t @ ''$'') (title m)
                           \<and> (ignoreUndefined e \<or> year m = None)) docs)"
  proof
    assume h: "b_title u = Some t \<and> t \<noteq> [] \<and> b_year u = None
        \<and> regexp e (''^'' @ t @ ''$'') \<noteq> None"
    show "updateConflict e docs i u
      = Inr (List.find (\<lambda>m. doc_id m \<noteq> i \<and> status m \<noteq> Deleted
                           \<and> rxTest e (''^'' @ t @ ''$'') (title m)
                           \<and> (ignoreUndefined e \<or> year m = None)) docs)"
      by (rule conflict_title_only) (use h in blast)+
  qed
  have c: "\<not> truthyStr (b_title u) \<and> b_year u = Some y \<and> y \<noteq> 0 \<and> regexp e = regexp_i \<longrightarrow>
      updateConflict e docs i u
      = Inr (List.find (\<lambda>m. doc_id m \<noteq> i \<and> status m \<noteq> Deleted
                           \<and> singleLine (title m) \<and> year m = Some y) docs)"
  proof
    assume h: "\<not> truthyStr (b_title u) \<and> b_year u = Some y \<and> y \<noteq> 0 \<and> regexp e = regexp_i"
    show "updateConflict e docs i u
      = Inr (List.find (\<lambda>m. doc_id m \<noteq> i \<and> status m \<noteq> Deleted
                           \<and> singleLine (title m) \<and> year m = Some y) docs)"
      by (rule conflict_year_only) (use h in blast)+
  qed
  have d: "b_year b = Some z \<and> regexp e (''^'' @ titleText (b_title b) @ ''$'') \<noteq> None \<longrightarrow>
      findOne e docs (duplicateQuery (''^'' @ titleText (b_title b) @ ''$'') (b_year b))
      = Inr (List.find (\<lambda>m. status m \<noteq> Deleted
                           \<and> rxTest e (''^'' @ titleText (b_title b) @ ''$'') (title m)
                           \<and> year m = Some z) docs)"
  proof
    assume h: "b_year b = Some z \<and> regexp e (''^'' @ titleText (b_title b) @ ''$'') \<noteq> None"
    show "findOne e docs (duplicateQuery (''^'' @ titleText (b_title b) @ ''$'') (b_year b))
      = Inr (List.find (\<lambda>m. status m \<noteq> Deleted
                           \<and> rxTest e (''^'' @ titleText (b_title b) @ ''$'') (title m)
                           \<and> year m = Some z) docs)"
      by (rule create_key) (use h in blast)+
  qed
  show ?thesis by (intro conjI) (rule p a c d)+
qed

text \<open>
  Instances with \<open>ignoreUndefined\<close> not set: the title \<open>Alien\<close> alone conflicts with the
  movie \<open>Alien\<close> that has no year and passes over the one of 1979; the year 1979 alone
  conflicts with \<open>Alien\<close> of 1979 when \<open>Alibi\<close> is updated.
\<close>

theorem update_conflict_keys_witness:
  "b_title titleOnly = Some ''Alien'' \<and> b_year titleOnly = None
   \<and> regexp env0 ''^Alien$'' \<noteq> None
   \<and> updateConflict env0 [alien, noYear, alibi] 3 titleOnly = Inr (Some noYear)
   \<and> year alien = Some 1979 \<and> year noYear = None
   \<and> \<not> truthyStr (b_title yearOnly) \<and> b_year yearOnly = Some 1979 \<and> regexp env0 = regexp_i
   \<and> updateConflict env0 sampleDocs 3 yearOnly = Inr (Some alien)
   \<and> title alien = ''Alien'' \<and> title alibi = ''Alibi''"
proof -
  have t1: "b_title titleOnly = Some ''Alien''" by code_simp
  have t2: "b_year titleOnly = None" by code_simp
  have t3: "regexp env0 (''^'' @ ''Alien'' @ ''$'') \<noteq> None" by code_simp
  have t3': "regexp env0 ''^Alien$'' \<noteq> None" using t3 by simp
  have y1: "\<not> truthyStr (b_title yearOnly)" by code_simp
  have y2: "b_year yearOnly = Some 1979" by code_simp
  have y3: "regexp env0 = regexp_i" by (simp add: env0_def)
  have ne: "''Alien'' \<noteq> []" "(1979::int) \<noteq> 0" by simp_all
  note inst1 = update_conflict_keys[where u = titleOnly and t = "''Alien''" and e = env0
      and docs = "[alien, noYear, alibi]" and i = 3]
  note inst2 = update_conflict_keys[where u = yearOnly and y = 1979 and e = env0
      and docs = sampleDocs and i = 3]
  have f1: "List.find (\<lambda>m. doc_id m \<noteq> 3 \<and> status m \<noteq> Deleted
                           \<and> rxTest env0 (''^'' @ ''Alien'' @ ''$'') (title m)
                           \<and> (ignoreUndefined env0 \<or> year m = None)) [alien, noYear, alibi]
            = Some noYear" by code_simp
  have f2: "List.find (\<lambda>m. doc_id m \<noteq> 3 \<and> status m \<noteq> Deleted
                           \<and> singleLine (title m) \<and> year m = Some 1979) sampleDocs
            = Some alien" by code_simp
  from inst1 t1 t2 t3 ne(1) have
    "updateConflict env0 [alien, noYear, alibi] 3 titleOnly
     = Inr (List.find (\<lambda>m. doc_id m \<noteq> 3 \<and> status m \<noteq> Deleted
                           \<and> rxTest env0 (''^'' @ ''Alien'' @ ''$'') (title m)
                           \<and> (ignoreUndefined env0 \<or> year m = None)) [alien, noYear, alibi])"
    by blast
  then have c1: "updateConflict env0 [alien, noYear, alibi] 3 titleOnly = Inr (Some noYear)"
    by (simp only: f1)
  from inst2 y1 y2 y3 ne(2) have
    "updateConflict env0 sampleDocs 3 yearOnly
     = Inr (List.find (\<lambda>m. doc_id m \<noteq> 3 \<and> status m \<noteq> Deleted
                           \<and> singleLine (title m) \<and> year m = Some 1979) sampleDocs)"
    by blast
  then have c2: "updateConflict env0 sampleDocs 3 yearOnly = Inr (Some alien)"
    by (simp only: f2)
  have v: "year alien = Some 1979" "year noYear = None" "title alien = ''Alien''"
    "title alibi = ''Alibi''" by code_simp+
  show ?thesis by (intro conjI) (rule t1 t2 t3' c1 c2 y1 y2 y3 v)+
qed

section \<open>Titles and directors on save\<close>












end
